theory Spec2Isabelle
  imports Main "HOL-Library.Word"
begin

unbundle bit_operations_syntax

section \<open>The run-length writer of repro\_rle.c\<close>

text \<open>
  \<^verbatim>\<open>typedef unsigned char byte\<close>: the cells, the run counter and the
  output buffer are all 8-bit values.
\<close>

type_synonym byte = "8 word"

text \<open>
  repro\_rle.c defines its own \<^verbatim>\<open>DUNGEON_HGT\<close> and \<^verbatim>\<open>DUNGEON_WID\<close> (both 10); they are
  named \<open>RLE_HGT\<close> and \<open>RLE_WID\<close> here, apart from the dimensions of the game's grid.
\<close>

definition RLE_HGT :: nat where "RLE_HGT = 10"
definition RLE_WID :: nat where "RLE_WID = 10"
definition MAX_UCHAR :: byte where "MAX_UCHAR = 255"

text \<open>
  The globals \<^verbatim>\<open>buffer[1024]\<close> and \<^verbatim>\<open>buf_pos\<close>. The array is a function
  from the index; it is only ever written below 1024.
\<close>

record wr_state =
  buffer :: "nat \<Rightarrow> byte"
  buf_pos :: nat

text \<open>\<^verbatim>\<open>wr_byte\<close>: store and advance, or (buffer full) only print a message.\<close>

definition wr_byte :: "byte \<Rightarrow> wr_state \<Rightarrow> wr_state" where
  "wr_byte v s =
     (if buf_pos s < 1024
      then s\<lparr>buffer := (buffer s)(buf_pos s := v), buf_pos := buf_pos s + 1\<rparr>
      else s)"

text \<open>The locals of \<^verbatim>\<open>wr_dungeon_sim\<close> that live across loop iterations.\<close>

record rle_state =
  count :: byte
  prev_char :: byte
  out :: wr_state

text \<open>The pending run is written as the pair (count, prev\_char), if there is one.\<close>

definition flush_run :: "rle_state \<Rightarrow> wr_state" where
  "flush_run r =
     (if count r \<noteq> 0 then wr_byte (prev_char r) (wr_byte (count r) (out r)) else out r)"

text \<open>The body of the inner loop, for the cell value \<open>tmp8u\<close>.\<close>

definition rle_cell :: "byte \<Rightarrow> rle_state \<Rightarrow> rle_state" where
  "rle_cell tmp8u r =
     (if tmp8u \<noteq> prev_char r \<or> count r = MAX_UCHAR
      then \<lparr>count = 1, prev_char = tmp8u, out = flush_run r\<rparr>
      else r\<lparr>count := count r + 1\<rparr>)"

text \<open>The two nested \<^verbatim>\<open>for\<close> loops, row-major.\<close>

definition rle_scan :: "(nat \<Rightarrow> nat \<Rightarrow> byte) \<Rightarrow> rle_state \<Rightarrow> rle_state" where
  "rle_scan cave_info r =
     fold (\<lambda>y. fold (\<lambda>x. rle_cell (cave_info y x)) [0..<RLE_WID]) [0..<RLE_HGT] r"

text \<open>
  \<^verbatim>\<open>wr_dungeon_sim(fix)\<close>: reset the buffer position, scan, and flush the last run
  only when \<open>fix\<close> is non-zero.
\<close>

definition wr_dungeon_sim :: "(nat \<Rightarrow> nat \<Rightarrow> byte) \<Rightarrow> int \<Rightarrow> wr_state \<Rightarrow> wr_state" where
  "wr_dungeon_sim cave_info fix s =
     (let r = rle_scan cave_info \<lparr>count = 0, prev_char = 0, out = s\<lparr>buf_pos := 0\<rparr>\<rparr>
      in if fix \<noteq> 0 then flush_run r else out r)"

section \<open>The dungeon grid\<close>

text \<open>
  The terrain kinds the modelled functions name. In the source they are the
  \<^verbatim>\<open>FEAT_*\<close> constants of defines.h; the ones used as labels of the \<^verbatim>\<open>switch\<close>
  in \<^verbatim>\<open>get_cover_at\<close> are pairwise different, or that switch would not compile.
  \<open>FEAT_DOOR k\<close> is \<^verbatim>\<open>FEAT_DOOR_HEAD + k\<close>, and \<open>FEAT_OTHER\<close> stands for every
  kind not named here.
\<close>

datatype feat =
    FEAT_FLOOR | FEAT_OPEN | FEAT_BROKEN | FEAT_LESS | FEAT_MORE | FEAT_SHAFT
  | FEAT_DREAM_EXIT | FEAT_UNSEEN
  | FEAT_DOOR nat
  | FEAT_SECRET | FEAT_RUBBLE
  | FEAT_WALL_EXTRA | FEAT_WALL_INNER | FEAT_WALL_OUTER | FEAT_WALL_SOLID
  | FEAT_PERM_EXTRA | FEAT_PERM_INNER | FEAT_PERM_OUTER | FEAT_PERM_SOLID
  | FEAT_STONE_PILLAR | FEAT_TREES | FEAT_BOULDER
  | FEAT_FALLEN_TREE | FEAT_CRATE | FEAT_TALL_GRASS | FEAT_REEDS | FEAT_SHRUB
  | FEAT_FOG | FEAT_FOG_DENSE | FEAT_SMOKE | FEAT_CHAOS_FOG | FEAT_BARREL
  | FEAT_OTHER nat

text \<open>
  Modelled from the spec: defines.h, with the numbers of the \<^verbatim>\<open>FEAT_*\<close> constants, is
  not among the sources. The spec (4.A) says the feature ids are laid out in ordered bands
  so that the test \<^verbatim>\<open>feat >= FEAT_WALL_EXTRA\<close> means "is granite or harder": the four
  granite walls and the four permanent walls.
\<close>

definition ge_WALL_EXTRA :: "feat \<Rightarrow> bool" where
  "ge_WALL_EXTRA f \<longleftrightarrow>
     f \<in> {FEAT_WALL_EXTRA, FEAT_WALL_INNER, FEAT_WALL_OUTER, FEAT_WALL_SOLID,
          FEAT_PERM_EXTRA, FEAT_PERM_INNER, FEAT_PERM_OUTER, FEAT_PERM_SOLID}"

text \<open>
  Modelled from the spec: the cover tiers are \<^verbatim>\<open>#define\<close>s of defines.h, which is not
  among the sources; the spec (4.C) orders them NONE < LIGHT < MEDIUM < HEAVY < TOTAL.
  They stay integers, as in the source, where a cover record stores any \<^verbatim>\<open>int\<close>.
\<close>

definition COVER_NONE :: int where "COVER_NONE = 0"
definition COVER_LIGHT :: int where "COVER_LIGHT = 1"
definition COVER_MEDIUM :: int where "COVER_MEDIUM = 2"
definition COVER_HEAVY :: int where "COVER_HEAVY = 3"
definition COVER_TOTAL :: int where "COVER_TOTAL = 4"

text \<open>
  Modelled from the spec: the grid dimensions are macros of defines.h; the spec (3) gives
  the default height 66 and width 198.
\<close>

definition DUNGEON_HGT :: int where "DUNGEON_HGT = 66"
definition DUNGEON_WID :: int where "DUNGEON_WID = 198"

text \<open>\<^verbatim>\<open>struct cover_data\<close>, the record behind a non-null \<^verbatim>\<open>cave_cover[y][x]\<close>.\<close>

record cover_data =
  durability :: int
  max_durability :: int
  cover_type :: int
  terrain_feat :: feat

text \<open>
  The global layers of the level, indexed \<^verbatim>\<open>[y][x]\<close>. A null pointer in
  \<^verbatim>\<open>cave_cover\<close> is \<open>None\<close>. \<open>CAVE_ROOM\<close> is the one flag of \<^verbatim>\<open>cave_info\<close> the
  modelled code tests; it is kept as a layer of its own.
\<close>

record cave =
  cave_feat :: "int \<Rightarrow> int \<Rightarrow> feat"
  cave_room :: "int \<Rightarrow> int \<Rightarrow> bool"
  cave_o_idx :: "int \<Rightarrow> int \<Rightarrow> int"
  cave_m_idx :: "int \<Rightarrow> int \<Rightarrow> int"
  cave_cover :: "int \<Rightarrow> int \<Rightarrow> cover_data option"

text \<open>
  Modelled from the spec: the bounds predicates are macros of defines.h;
  \<^verbatim>\<open>in_bounds\<close> holds inside the grid, \<^verbatim>\<open>in_bounds_fully\<close> excludes the outer
  ring (spec 4.A).
\<close>

definition in_bounds :: "int \<Rightarrow> int \<Rightarrow> bool" where
  "in_bounds y x \<longleftrightarrow> 0 \<le> y \<and> y < DUNGEON_HGT \<and> 0 \<le> x \<and> x < DUNGEON_WID"

definition in_bounds_fully :: "int \<Rightarrow> int \<Rightarrow> bool" where
  "in_bounds_fully y x \<longleftrightarrow> 0 < y \<and> y < DUNGEON_HGT - 1 \<and> 0 < x \<and> x < DUNGEON_WID - 1"

text \<open>
  Modelled from the spec: \<^verbatim>\<open>cave_naked_bold\<close> is a macro of defines.h; spec 4.A:
  floor, no object, no monster.
\<close>

definition cave_naked_bold :: "cave \<Rightarrow> int \<Rightarrow> int \<Rightarrow> bool" where
  "cave_naked_bold c y x \<longleftrightarrow>
     cave_feat c y x = FEAT_FLOOR \<and> cave_o_idx c y x = 0 \<and> cave_m_idx c y x = 0"

text \<open>
  Modelled from the spec: \<^verbatim>\<open>cave_set_feat\<close> is in cave.c, which is not among the
  sources; it is the cell write of the grid model (spec 4.A). The plain assignments
  \<^verbatim>\<open>cave_feat[y][x] = f\<close> of the source are written with it too.
\<close>

definition cave_set_feat :: "int \<Rightarrow> int \<Rightarrow> feat \<Rightarrow> cave \<Rightarrow> cave" where
  "cave_set_feat y x f c = c\<lparr>cave_feat := (cave_feat c)(y := (cave_feat c y)(x := f))\<rparr>"

text \<open>C's integer division truncates towards zero.\<close>

definition c_div :: "int \<Rightarrow> int \<Rightarrow> int" where
  "c_div a b = (if (a < 0) = (b < 0) then \<bar>a\<bar> div \<bar>b\<bar> else - (\<bar>a\<bar> div \<bar>b\<bar>))"

section \<open>What the absent files supply\<close>

text \<open>
  The functions, tables and tunable constants that the modelled code uses from files
  that are not among the sources are parameters, collected in one record:
  \<^verbatim>\<open>distance\<close> (cave.c), the direction tables \<^verbatim>\<open>ddy_ddd\<close> and \<^verbatim>\<open>ddx_ddd\<close>
  (tables.c), the seeded generator behind \<^verbatim>\<open>Rand_div\<close> in quick mode (z-rand.c), the
  explosion of a barrel (\<^verbatim>\<open>fire_ball\<close> and \<^verbatim>\<open>fire_explosion\<close>, spells), and the
  cover constants and the depth limit of defines.h.
\<close>

record extern =
  distance :: "int \<Rightarrow> int \<Rightarrow> int \<Rightarrow> int \<Rightarrow> int"
  ddy_ddd :: "nat \<Rightarrow> int"
  ddx_ddd :: "nat \<Rightarrow> int"
  Rand_quick_draw :: "32 word \<Rightarrow> int \<times> 32 word"
  barrel_explosion :: "int \<Rightarrow> int \<Rightarrow> cave \<Rightarrow> cave"
  COVER_ABSORB_LIGHT :: int
  COVER_ABSORB_MEDIUM :: int
  COVER_ABSORB_HEAVY :: int
  COVER_ABSORB_TOTAL :: int
  COVER_DURABILITY_TREE :: int
  COVER_DURABILITY_BOULDER :: int
  COVER_DURABILITY_WALL :: int
  MAX_DEPTH :: int

text \<open>
  The state of the random number generator: the globals \<^verbatim>\<open>Rand_quick\<close> and
  \<^verbatim>\<open>Rand_value\<close>, and the long-lived state of the unseeded generator, held as the
  draws it will produce.
\<close>

record rng =
  Rand_quick :: bool
  Rand_value :: "32 word"
  Rand_state :: "int list"

text \<open>
  Modelled from the spec: z-rand.c is not among the sources. \<^verbatim>\<open>rand_int(m)\<close> returns
  a value in \<open>[0, m)\<close> (0 when \<open>m \<le> 1\<close>). In quick mode it is computed from
  \<^verbatim>\<open>Rand_value\<close> alone, which it advances; otherwise it comes from the long-lived state
  (spec 5). Any raw draw is reduced into the range.
\<close>

definition rand_int :: "extern \<Rightarrow> int \<Rightarrow> rng \<Rightarrow> int \<times> rng" where
  "rand_int E m r =
     (if m \<le> 1 then (0, r)
      else if Rand_quick r
      then (let (v, s) = Rand_quick_draw E (Rand_value r) in (v mod m, r\<lparr>Rand_value := s\<rparr>))
      else (case Rand_state r of
              [] \<Rightarrow> (0, r)
            | v # vs \<Rightarrow> (v mod m, r\<lparr>Rand_state := vs\<rparr>)))"

text \<open>
  Modelled from the spec: the macros \<^verbatim>\<open>randint\<close>, \<^verbatim>\<open>rand_range\<close> and
  \<^verbatim>\<open>rand_spread\<close> of z-rand.h, which is not among the sources. The spec reads
  \<^verbatim>\<open>rand_range(a, b)\<close> as a value from \<open>a\<close> to \<open>b\<close>, both included (4.J: "3-8 glowing
  tiles" for \<^verbatim>\<open>rand_range(3, 8)\<close>); \<^verbatim>\<open>randint(m)\<close> is in \<open>[1, m]\<close> and
  \<^verbatim>\<open>rand_spread(a, d)\<close> in \<open>[a - d, a + d]\<close>, as in Angband.
\<close>

definition randint :: "extern \<Rightarrow> int \<Rightarrow> rng \<Rightarrow> int \<times> rng" where
  "randint E m r = (let (v, r') = rand_int E m r in (v + 1, r'))"

definition rand_range :: "extern \<Rightarrow> int \<Rightarrow> int \<Rightarrow> rng \<Rightarrow> int \<times> rng" where
  "rand_range E a b r = (let (v, r') = rand_int E (1 + b - a) r in (a + v, r'))"


section \<open>The cover engine (cover.c)\<close>

definition create_cover_at :: "int \<Rightarrow> int \<Rightarrow> int \<Rightarrow> int \<Rightarrow> feat \<Rightarrow> cave \<Rightarrow> cave" where
  "create_cover_at y x ctype dura f c =
     (if \<not> in_bounds y x then c
      else cave_set_feat y x f
             (c\<lparr>cave_cover := (cave_cover c)(y := (cave_cover c y)(x :=
                  Some \<lparr>durability = dura, max_durability = dura,
                        cover_type = ctype, terrain_feat = f\<rparr>))\<rparr>))"

definition destroy_cover :: "int \<Rightarrow> int \<Rightarrow> cave \<Rightarrow> cave" where
  "destroy_cover y x c =
     (if \<not> in_bounds y x then c
      else cave_set_feat y x FEAT_FLOOR
             (c\<lparr>cave_cover := (cave_cover c)(y := (cave_cover c y)(x := None))\<rparr>))"

text \<open>The \<^verbatim>\<open>switch\<close> of \<^verbatim>\<open>get_cover_at\<close> on the terrain feature.\<close>

fun feat_cover :: "feat \<Rightarrow> int" where
  "feat_cover FEAT_WALL_INNER = COVER_HEAVY"
| "feat_cover FEAT_WALL_OUTER = COVER_HEAVY"
| "feat_cover FEAT_WALL_SOLID = COVER_HEAVY"
| "feat_cover FEAT_PERM_INNER = COVER_HEAVY"
| "feat_cover FEAT_PERM_OUTER = COVER_HEAVY"
| "feat_cover FEAT_PERM_SOLID = COVER_HEAVY"
| "feat_cover FEAT_STONE_PILLAR = COVER_HEAVY"
| "feat_cover FEAT_TREES = COVER_MEDIUM"
| "feat_cover FEAT_BOULDER = COVER_MEDIUM"
| "feat_cover FEAT_RUBBLE = COVER_MEDIUM"
| "feat_cover FEAT_FALLEN_TREE = COVER_LIGHT"
| "feat_cover FEAT_CRATE = COVER_LIGHT"
| "feat_cover FEAT_TALL_GRASS = COVER_LIGHT"
| "feat_cover FEAT_REEDS = COVER_LIGHT"
| "feat_cover FEAT_SHRUB = COVER_LIGHT"
| "feat_cover FEAT_FOG = COVER_LIGHT"
| "feat_cover FEAT_FOG_DENSE = COVER_LIGHT"
| "feat_cover FEAT_SMOKE = COVER_LIGHT"
| "feat_cover FEAT_CHAOS_FOG = COVER_LIGHT"
| "feat_cover FEAT_BARREL = COVER_LIGHT"
| "feat_cover _ = COVER_NONE"

definition get_cover_at :: "cave \<Rightarrow> int \<Rightarrow> int \<Rightarrow> int" where
  "get_cover_at c y x =
     (if \<not> in_bounds y x then COVER_NONE
      else case cave_cover c y x of
             Some d \<Rightarrow> (if durability d > 0 then cover_type d else COVER_NONE)
           | None \<Rightarrow> feat_cover (cave_feat c y x))"

text \<open>
  The loop of \<^verbatim>\<open>get_cover_vs_direction\<close> over \<open>i = 1 .. dist - 1\<close>, here over the
  list of the remaining values of \<open>i\<close>. The result is \<open>Inl\<close> for the early
  \<^verbatim>\<open>return COVER_TOTAL\<close> and \<open>Inr best_cover\<close> when the loop runs out.
\<close>

fun cover_line :: "cave \<Rightarrow> int \<Rightarrow> int \<Rightarrow> int \<Rightarrow> int \<Rightarrow> int \<Rightarrow> int list \<Rightarrow> int \<Rightarrow> int + int" where
  "cover_line c ay ax dy dx dist [] best_cover = Inr best_cover"
| "cover_line c ay ax dy dx dist (i # is) best_cover =
     (let y = ay + c_div (dy * i) dist;
          x = ax + c_div (dx * i) dist
      in if \<not> in_bounds y x then cover_line c ay ax dy dx dist is best_cover
         else let cover = get_cover_at c y x
              in if cave_feat c y x = FEAT_FOG \<or> cave_feat c y x = FEAT_FOG_DENSE
                    \<or> cave_feat c y x = FEAT_SMOKE
                 then cover_line c ay ax dy dx dist is best_cover
                 else let best = (if cover > best_cover then cover else best_cover)
                      in if best \<ge> COVER_TOTAL then Inl COVER_TOTAL
                         else cover_line c ay ax dy dx dist is best)"

definition get_cover_vs_direction :: "extern \<Rightarrow> cave \<Rightarrow> int \<Rightarrow> int \<Rightarrow> int \<Rightarrow> int \<Rightarrow> int" where
  "get_cover_vs_direction E c ty tx ay ax =
     (let dy = ty - ay;
          dx = tx - ax;
          dist = distance E ay ax ty tx
      in case cover_line c ay ax dy dx dist [1..dist - 1] COVER_NONE of
           Inl blocked \<Rightarrow> blocked
         | Inr best_cover \<Rightarrow>
             (let target_cover = get_cover_at c ty tx
              in if target_cover > best_cover \<and> target_cover \<le> COVER_MEDIUM
                 then target_cover else best_cover))"

text \<open>
  \<^verbatim>\<open>get_directional_cover\<close>: bit \<open>dir\<close> of the result is set when the neighbour in
  direction \<open>dir\<close> is in bounds and solid.
\<close>

definition directional_bit :: "extern \<Rightarrow> cave \<Rightarrow> int \<Rightarrow> int \<Rightarrow> nat \<Rightarrow> byte \<Rightarrow> byte" where
  "directional_bit E c y x dir cover_dirs =
     (let ny = y + ddy_ddd E dir;
          nx = x + ddx_ddd E dir
      in if \<not> in_bounds ny nx then cover_dirs
         else let f = cave_feat c ny nx
              in if ge_WALL_EXTRA f \<or> f = FEAT_TREES \<or> f = FEAT_BOULDER \<or> f = FEAT_STONE_PILLAR
                 then cover_dirs OR push_bit dir 1
                 else cover_dirs)"

definition get_directional_cover :: "extern \<Rightarrow> cave \<Rightarrow> int \<Rightarrow> int \<Rightarrow> byte" where
  "get_directional_cover E c y x = fold (directional_bit E c y x) [0..<8] 0"

text \<open>The eight-way direction from the target to the attacker; \<open>None\<close> on the same grid.\<close>

definition attack_dir :: "int \<Rightarrow> int \<Rightarrow> nat option" where
  "attack_dir dy dx =
     (if dy < 0 \<and> dx < 0 then Some 7
      else if dy < 0 \<and> dx = 0 then Some 0
      else if dy < 0 \<and> dx > 0 then Some 1
      else if dy = 0 \<and> dx > 0 then Some 2
      else if dy > 0 \<and> dx > 0 then Some 3
      else if dy > 0 \<and> dx = 0 then Some 4
      else if dy > 0 \<and> dx < 0 then Some 5
      else if dy = 0 \<and> dx < 0 then Some 6
      else None)"

definition is_attack_blocked_by_cover :: "extern \<Rightarrow> cave \<Rightarrow> int \<Rightarrow> int \<Rightarrow> int \<Rightarrow> int \<Rightarrow> bool" where
  "is_attack_blocked_by_cover E c ty tx ay ax =
     (let dir_cover = get_directional_cover E c ty tx
      in case attack_dir (ay - ty) (ax - tx) of
           None \<Rightarrow> False
         | Some dir \<Rightarrow>
             dir_cover AND push_bit dir 1 \<noteq> 0
             \<and> get_cover_at c (ty + ddy_ddd E dir) (tx + ddx_ddd E dir) \<ge> COVER_HEAVY)"

text \<open>
  The branch of \<^verbatim>\<open>damage_cover\<close> for a grid that has a cover record \<open>d\<close>: the
  durability drops by the damage, and the cover is destroyed at zero or below.
\<close>

definition damage_cover_data :: "int \<Rightarrow> int \<Rightarrow> int \<Rightarrow> cover_data \<Rightarrow> cave \<Rightarrow> cave" where
  "damage_cover_data y x damage d c =
     (let d' = d\<lparr>durability := durability d - damage\<rparr>;
          c' = c\<lparr>cave_cover := (cave_cover c)(y := (cave_cover c y)(x := Some d'))\<rparr>
      in if durability d' \<le> 0 then destroy_cover y x c' else c')"

text \<open>
  \<^verbatim>\<open>damage_cover\<close>. A crate without a record gets one and the function calls itself;
  that call finds the record it has just made and takes the branch above, which is
  written in its place here.
\<close>

definition damage_cover :: "extern \<Rightarrow> int \<Rightarrow> int \<Rightarrow> int \<Rightarrow> cave \<times> rng \<Rightarrow> cave \<times> rng" where
  "damage_cover E y x damage cr =
     (let c = fst cr; r = snd cr
      in if \<not> in_bounds y x then (c, r)
         else let f = cave_feat c y x
              in if f = FEAT_BARREL
                 then (cave_set_feat y x FEAT_FLOOR (barrel_explosion E y x c), r)
                 else case cave_cover c y x of
                        Some d \<Rightarrow> (damage_cover_data y x damage d c, r)
                      | None \<Rightarrow>
                          (let (c1, r1) =
                                 (if f = FEAT_TREES \<and> damage > 20
                                  then (let (roll, r') = rand_int E 100 r
                                        in if roll < damage
                                           then (create_cover_at y x COVER_LIGHT
                                                   (c_div (COVER_DURABILITY_TREE E) 2)
                                                   FEAT_FALLEN_TREE
                                                   (cave_set_feat y x FEAT_FALLEN_TREE c), r')
                                           else (c, r'))
                                  else (c, r))
                           in if f = FEAT_CRATE
                              then (let d = \<lparr>durability = 20, max_durability = 20,
                                             cover_type = COVER_LIGHT, terrain_feat = FEAT_CRATE\<rparr>
                                    in (damage_cover_data y x damage d c1, r1))
                              else (c1, r1)))"

text \<open>
  The search \<^verbatim>\<open>for (i = 1; i <= dist; i++)\<close> of \<^verbatim>\<open>attack_through_cover\<close> for the
  first grid on the line whose cover is at least \<open>cover\<close>.
\<close>

fun find_cover_grid :: "cave \<Rightarrow> int \<Rightarrow> int \<Rightarrow> int \<Rightarrow> int \<Rightarrow> int \<Rightarrow> int \<Rightarrow> int list \<Rightarrow> (int \<times> int) option" where
  "find_cover_grid c ay ax dy dx dist cover [] = None"
| "find_cover_grid c ay ax dy dx dist cover (i # is) =
     (let cy = ay + c_div (dy * i) dist;
          cx = ax + c_div (dx * i) dist
      in if get_cover_at c cy cx \<ge> cover then Some (cy, cx)
         else find_cover_grid c ay ax dy dx dist cover is)"

text \<open>
  The cover that takes the damage: the first such grid on the line, else the target's own
  grid if its cover is high enough, else none.
\<close>

definition struck_cover :: "extern \<Rightarrow> cave \<Rightarrow> int \<Rightarrow> int \<Rightarrow> int \<Rightarrow> int \<Rightarrow> int \<Rightarrow> (int \<times> int) option" where
  "struck_cover E c ay ax ty tx cover =
     (let dist = distance E ay ax ty tx
      in case find_cover_grid c ay ax (ty - ay) (tx - ax) dist cover [1..dist] of
           Some g \<Rightarrow> Some g
         | None \<Rightarrow> (if get_cover_at c ty tx \<ge> cover then Some (ty, tx) else None))"

text \<open>The \<^verbatim>\<open>switch (cover)\<close> giving the absorb percentage and the miss chance.\<close>

definition cover_odds :: "extern \<Rightarrow> int \<Rightarrow> int \<times> int" where
  "cover_odds E cover =
     (if cover = COVER_LIGHT then (COVER_ABSORB_LIGHT E, 25)
      else if cover = COVER_MEDIUM then (COVER_ABSORB_MEDIUM E, 40)
      else if cover = COVER_HEAVY then (COVER_ABSORB_HEAVY E, 60)
      else if cover = COVER_TOTAL then (COVER_ABSORB_TOTAL E, 100)
      else (0, 0))"

text \<open>
  What \<^verbatim>\<open>attack_through_cover\<close> leaves behind: its return value, the two
  out-parameters \<^verbatim>\<open>*damage\<close> and \<^verbatim>\<open>*cover_damage_out\<close>, and the level and generator.
\<close>

record attack_result =
  hits :: bool
  damage_out :: int
  cover_damage_out :: int
  after :: "cave \<times> rng"

definition attack_through_cover ::
    "extern \<Rightarrow> int \<Rightarrow> int \<Rightarrow> int \<Rightarrow> int \<Rightarrow> int \<Rightarrow> cave \<times> rng \<Rightarrow> attack_result" where
  "attack_through_cover E ay ax ty tx damage cr =
     (let c = fst cr; r = snd cr;
          cover = get_cover_vs_direction E c ty tx ay ax;
          original_damage = damage
      in if cover = COVER_NONE
         then \<lparr>hits = True, damage_out = damage, cover_damage_out = 0, after = cr\<rparr>
         else if is_attack_blocked_by_cover E c ty tx ay ax
         then \<lparr>hits = False, damage_out = 0, cover_damage_out = 0, after = cr\<rparr>
         else let (absorb_percent, miss_chance) = cover_odds E cover;
                  (roll, r1) = rand_int E 100 r
              in if roll < miss_chance
                 then (case struck_cover E c ay ax ty tx cover of
                         Some (cy, cx) \<Rightarrow>
                           \<lparr>hits = False, damage_out = 0, cover_damage_out = original_damage,
                            after = damage_cover E cy cx original_damage (c, r1)\<rparr>
                       | None \<Rightarrow>
                           \<lparr>hits = False, damage_out = 0, cover_damage_out = 0, after = (c, r1)\<rparr>)
                 else let cover_damage = c_div (original_damage * absorb_percent) 100;
                          dmg = original_damage - cover_damage
                      in \<lparr>hits = (dmg > 0), damage_out = dmg, cover_damage_out = cover_damage,
                          after = (if cover_damage > 0
                                   then (case struck_cover E c ay ax ty tx cover of
                                           Some (cy, cx) \<Rightarrow> damage_cover E cy cx cover_damage (c, r1)
                                         | None \<Rightarrow> (c, r1))
                                   else (c, r1))\<rparr>)"

section \<open>The patrol state machine (patrol.c)\<close>

datatype guard_state =
    GUARD_STATE_PATROL | GUARD_STATE_GUARD | GUARD_STATE_SLEEP
  | GUARD_STATE_ALERT | GUARD_STATE_CHASE | GUARD_STATE_RETURN

datatype patrol_type =
    PATROL_TYPE_RANDOM | PATROL_TYPE_CIRCUIT | PATROL_TYPE_BACKFORTH | PATROL_TYPE_STATIONARY

text \<open>\<^verbatim>\<open>patrol_waypoint\<close>; its fields \<^verbatim>\<open>y\<close> and \<^verbatim>\<open>x\<close> are \<open>wp_y\<close> and \<open>wp_x\<close>.\<close>

record patrol_waypoint =
  wp_y :: int
  wp_x :: int
  wait_turns :: int

text \<open>
  \<^verbatim>\<open>monster_guard_data\<close>. The array \<^verbatim>\<open>waypoints\<close> is a function of the index. The
  integer fields are unbounded here; their C types are declared in types.h, which is not
  among the sources.
\<close>

record monster_guard_data =
  guard_state :: guard_state
  patrol_type :: patrol_type
  home_y :: int
  home_x :: int
  alert_y :: int
  alert_x :: int
  chase_timer :: int
  waypoints :: "int \<Rightarrow> patrol_waypoint"
  num_waypoints :: int
  current_waypoint :: int

text \<open>
  What one call of \<^verbatim>\<open>execute_patrol_behavior\<close> reads from the rest of the game:
  whether the player has line of sight to the monster's grid
  (\<^verbatim>\<open>player_has_los_bold(m_ptr->fy, m_ptr->fx)\<close>), the player's position and stealth
  (with the stealth bonus of his cover), the monster's alertness \<^verbatim>\<open>r_ptr->aaf\<close>, which
  grids are floor (\<^verbatim>\<open>cave_floor_bold\<close>), and the tunable constants of defines.h.
\<close>

record patrol_env =
  player_los :: bool
  py :: int
  px :: int
  stealth :: int
  aaf :: int
  cave_floor_bold :: "int \<Rightarrow> int \<Rightarrow> bool"
  GUARD_CHASE_TIMEOUT :: int
  PATROL_REST_TURNS :: int
  PATROL_RADIUS :: int

text \<open>
  The monster as the state machine sees it: its grid \<^verbatim>\<open>(fy, fx)\<close> and its guard
  record. \<^verbatim>\<open>alert_nearby_guards\<close> writes to the records of other monsters and never to
  the caller's (whose state is already CHASE when it is called); it is left out.
\<close>

record patrol_monster =
  fy :: int
  fx :: int
  guard :: monster_guard_data

definition advance_patrol_waypoint :: "extern \<Rightarrow> patrol_env \<Rightarrow> monster_guard_data \<times> rng \<Rightarrow> monster_guard_data \<times> rng" where
  "advance_patrol_waypoint E P gr =
     (let g = fst gr; r = snd gr
      in if num_waypoints g = 0 then (g, r)
         else case patrol_type g of
           PATROL_TYPE_CIRCUIT \<Rightarrow>
             (let g1 = g\<lparr>current_waypoint := current_waypoint g + 1\<rparr>
              in (if current_waypoint g1 \<ge> num_waypoints g1
                  then g1\<lparr>current_waypoint := 0\<rparr> else g1, r))
         | PATROL_TYPE_BACKFORTH \<Rightarrow>
             (if current_waypoint g AND 128 \<noteq> 0
              then (let wp = (current_waypoint g AND 127) - 1
                    in (if wp < 0 then g\<lparr>current_waypoint := 1\<rparr>
                        else g\<lparr>current_waypoint := wp OR 128\<rparr>, r))
              else (let g1 = g\<lparr>current_waypoint := current_waypoint g + 1\<rparr>
                    in (if current_waypoint g1 \<ge> num_waypoints g1
                        then g1\<lparr>current_waypoint := (num_waypoints g1 - 2) OR 128\<rparr>
                        else g1, r)))
         | PATROL_TYPE_RANDOM \<Rightarrow>
             (let (a, r1) = rand_int E (PATROL_RADIUS P * 2) r;
                  (b, r2) = rand_int E (PATROL_RADIUS P * 2) r1;
                  w = (waypoints g 0)\<lparr>wp_y := home_y g + a - PATROL_RADIUS P,
                                      wp_x := home_x g + b - PATROL_RADIUS P\<rparr>
              in (g\<lparr>waypoints := (waypoints g)(0 := w), current_waypoint := 0\<rparr>, r2))
         | PATROL_TYPE_STATIONARY \<Rightarrow> (g, r))"

text \<open>One step towards \<open>(ty, tx)\<close>, taken only onto a floor grid (\<^verbatim>\<open>monster_swap\<close>).\<close>

definition step_toward :: "patrol_env \<Rightarrow> int \<Rightarrow> int \<Rightarrow> patrol_monster \<Rightarrow> patrol_monster" where
  "step_toward P ty tx m =
     (let dy = (if ty > fy m then 1 else if ty < fy m then -1 else 0);
          dx = (if tx > fx m then 1 else if tx < fx m then -1 else 0)
      in if cave_floor_bold P (fy m + dy) (fx m + dx)
         then m\<lparr>fy := fy m + dy, fx := fx m + dx\<rparr> else m)"

text \<open>
  \<^verbatim>\<open>execute_patrol_behavior\<close> for a monster that has a guard record. The first
  component is the return value: \<open>True\<close> when the turn was handled, \<open>False\<close> when the
  standard monster code takes over. In the CHASE case both branches of the
  \<^verbatim>\<open>if\<close> on the line of sight return, so the statements after it ("Timeout - give up
  chase") are never reached and have no counterpart here.
\<close>

definition execute_patrol_behavior ::
    "extern \<Rightarrow> patrol_env \<Rightarrow> patrol_monster \<times> rng \<Rightarrow> bool \<times> patrol_monster \<times> rng" where
  "execute_patrol_behavior E P mr =
     (let m = fst mr; r = snd mr; g = guard m
      in case guard_state g of
        GUARD_STATE_SLEEP \<Rightarrow>
          (if player_los P \<and> stealth P < aaf P
           then (False, m\<lparr>guard := g\<lparr>guard_state := GUARD_STATE_CHASE,
                                      alert_y := py P, alert_x := px P,
                                      chase_timer := GUARD_CHASE_TIMEOUT P\<rparr>\<rparr>, r)
           else (True, m, r))
      | GUARD_STATE_GUARD \<Rightarrow>
          (if player_los P
           then (False, m\<lparr>guard := g\<lparr>guard_state := GUARD_STATE_CHASE,
                                      alert_y := py P, alert_x := px P,
                                      chase_timer := GUARD_CHASE_TIMEOUT P\<rparr>\<rparr>, r)
           else (True, m, r))
      | GUARD_STATE_ALERT \<Rightarrow>
          (if fy m = alert_y g \<and> fx m = alert_x g
           then (True, m\<lparr>guard := g\<lparr>guard_state := GUARD_STATE_RETURN\<rparr>\<rparr>, r)
           else if player_los P
           then (False, m\<lparr>guard := g\<lparr>guard_state := GUARD_STATE_CHASE,
                                      chase_timer := GUARD_CHASE_TIMEOUT P\<rparr>\<rparr>, r)
           else (True, step_toward P (alert_y g) (alert_x g) m, r))
      | GUARD_STATE_CHASE \<Rightarrow>
          (let g1 = g\<lparr>chase_timer := chase_timer g - 1\<rparr>
           in if player_los P
              then (False, m\<lparr>guard := g1\<lparr>alert_y := py P, alert_x := px P,
                                          chase_timer := GUARD_CHASE_TIMEOUT P\<rparr>\<rparr>, r)
              else if fy m = alert_y g1 \<and> fx m = alert_x g1 \<and> chase_timer g1 \<le> 0
              then (True, m\<lparr>guard := g1\<lparr>guard_state := GUARD_STATE_RETURN\<rparr>\<rparr>, r)
              else (False, m\<lparr>guard := g1\<rparr>, r))
      | GUARD_STATE_RETURN \<Rightarrow>
          (let ty = (if patrol_type g = PATROL_TYPE_STATIONARY then home_y g
                     else if num_waypoints g > 0 then wp_y (waypoints g (current_waypoint g))
                     else home_y g);
               tx = (if patrol_type g = PATROL_TYPE_STATIONARY then home_x g
                     else if num_waypoints g > 0 then wp_x (waypoints g (current_waypoint g))
                     else home_x g)
           in if fy m = ty \<and> fx m = tx
              then (True, m\<lparr>guard := g\<lparr>guard_state :=
                       (if patrol_type g = PATROL_TYPE_STATIONARY
                        then GUARD_STATE_GUARD else GUARD_STATE_PATROL)\<rparr>\<rparr>, r)
              else (True, step_toward P ty tx m, r))
      | GUARD_STATE_PATROL \<Rightarrow>
          (if player_los P
           then (False, m\<lparr>guard := g\<lparr>guard_state := GUARD_STATE_CHASE,
                                      alert_y := py P, alert_x := px P,
                                      chase_timer := GUARD_CHASE_TIMEOUT P\<rparr>\<rparr>, r)
           else if num_waypoints g = 0
           then (let (roll, r1) = rand_int E 100 r
                 in if roll < 30
                    then (let (a, r2) = rand_int E 3 r1;
                              (b, r3) = rand_int E 3 r2;
                              dy = a - 1; dx = b - 1
                          in (True, (if cave_floor_bold P (fy m + dy) (fx m + dx)
                                     then m\<lparr>fy := fy m + dy, fx := fx m + dx\<rparr> else m), r3))
                    else (True, m, r1))
           else (let i = current_waypoint g; wp = waypoints g i
                 in if fy m = wp_y wp \<and> fx m = wp_x wp
                    then (let wp1 = wp\<lparr>wait_turns := wait_turns wp - 1\<rparr>
                          in if wait_turns wp1 \<le> 0
                             then (let (k, r1) = rand_int E (PATROL_REST_TURNS P) r;
                                       g1 = g\<lparr>waypoints := (waypoints g)(i := wp1\<lparr>wait_turns := 5 + k\<rparr>)\<rparr>;
                                       (g2, r2) = advance_patrol_waypoint E P (g1, r1)
                                   in (True, m\<lparr>guard := g2\<rparr>, r2))
                             else (True, m\<lparr>guard := g\<lparr>waypoints := (waypoints g)(i := wp1)\<rparr>\<rparr>, r))
                    else (True, step_toward P (wp_y wp) (wp_x wp) m, r))))"

section \<open>The tunnelers (generate.c)\<close>

definition DUN_TUN_RND :: int where "DUN_TUN_RND = 10"
definition DUN_TUN_CHG :: int where "DUN_TUN_CHG = 30"
definition DUN_TUN_CON :: int where "DUN_TUN_CON = 15"
definition DUN_TUN_PEN :: int where "DUN_TUN_PEN = 25"
definition CENT_MAX :: nat where "CENT_MAX = 1000"
definition DOOR_MAX :: nat where "DOOR_MAX = 1000"
definition WALL_MAX :: nat where "WALL_MAX = 2000"
definition TUNN_MAX :: nat where "TUNN_MAX = 9000"

text \<open>
  \<^verbatim>\<open>dun_data\<close>: each array with its counter (\<^verbatim>\<open>cent\<close> and \<^verbatim>\<open>cent_n\<close>, and so on)
  is the list of the entries in use, a grid being the pair \<open>(y, x)\<close>.
\<close>

record dun_data =
  cent :: "(int \<times> int) list"
  door :: "(int \<times> int) list"
  wall :: "(int \<times> int) list"
  tunn :: "(int \<times> int) list"

text \<open>Storing one more grid in an array of capacity \<open>cap\<close>; a full array is left alone.\<close>

definition save_grid :: "nat \<Rightarrow> int \<times> int \<Rightarrow> (int \<times> int) list \<Rightarrow> (int \<times> int) list" where
  "save_grid cap g gs = (if length gs < cap then gs @ [g] else gs)"

text \<open>The generation state the tunnelers work on.\<close>

record gen_state =
  grid :: cave
  dun :: dun_data
  rnd :: rng

definition correct_dir :: "extern \<Rightarrow> int \<Rightarrow> int \<Rightarrow> int \<Rightarrow> int \<Rightarrow> rng \<Rightarrow> (int \<times> int) \<times> rng" where
  "correct_dir E y1 x1 y2 x2 r =
     (let rdir = (if y1 = y2 then 0 else if y1 < y2 then 1 else -1);
          cdir = (if x1 = x2 then 0 else if x1 < x2 then 1 else -1)
      in if rdir \<noteq> 0 \<and> cdir \<noteq> 0
         then (let (v, r') = rand_int E 100 r
               in if v < 50 then ((0, cdir), r') else ((rdir, 0), r'))
         else ((rdir, cdir), r))"

definition rand_dir :: "extern \<Rightarrow> rng \<Rightarrow> (int \<times> int) \<times> rng" where
  "rand_dir E r = (let (i, r') = rand_int E 4 r in ((ddy_ddd E (nat i), ddx_ddd E (nat i)), r'))"

definition place_random_door :: "extern \<Rightarrow> int \<Rightarrow> int \<Rightarrow> cave \<times> rng \<Rightarrow> cave \<times> rng" where
  "place_random_door E y x cr =
     (let c = fst cr; (tmp, r) = rand_int E 1000 (snd cr)
      in if tmp < 300 then (cave_set_feat y x FEAT_OPEN c, r)
         else if tmp < 400 then (cave_set_feat y x FEAT_BROKEN c, r)
         else if tmp < 600 then (cave_set_feat y x FEAT_SECRET c, r)
         else if tmp < 900 then (cave_set_feat y x (FEAT_DOOR 0) c, r)
         else if tmp < 999
         then (let (k, r') = randint E 7 r in (cave_set_feat y x (FEAT_DOOR (nat k)) c, r'))
         else (let (k, r') = rand_int E 8 r in (cave_set_feat y x (FEAT_DOOR (8 + nat k)) c, r')))"

text \<open>
  "Forbid re-entry near this piercing": the two nested loops over the 3x3 block around
  \<open>(row1, col1)\<close>, turning each outer wall into a solid wall.
\<close>

definition solidify :: "int \<times> int \<Rightarrow> cave \<Rightarrow> cave" where
  "solidify g c =
     (if cave_feat c (fst g) (snd g) = FEAT_WALL_OUTER
      then cave_set_feat (fst g) (snd g) FEAT_WALL_SOLID c else c)"

definition block3 :: "int \<Rightarrow> int \<Rightarrow> (int \<times> int) list" where
  "block3 row1 col1 =
     concat (map (\<lambda>y. map (\<lambda>x. (y, x)) [col1 - 1, col1, col1 + 1]) [row1 - 1, row1, row1 + 1])"

definition forbid_reentry :: "int \<Rightarrow> int \<Rightarrow> cave \<Rightarrow> cave" where
  "forbid_reentry row1 col1 c = fold solidify (block3 row1 col1) c"

text \<open>
  The loop variables of \<^verbatim>\<open>build_tunnel\<close>, but for \<^verbatim>\<open>main_loop_count\<close>, which the
  loop below carries as an argument.
\<close>

record tunnel_vars =
  row1 :: int
  col1 :: int
  row_dir :: int
  col_dir :: int
  door_flag :: bool
  st :: gen_state

text \<open>
  The part of the loop body of \<^verbatim>\<open>build_tunnel\<close> that looks at the next location
  \<open>(tmp_row, tmp_col)\<close>, from "Avoid the edge of the dungeon" to the end of the body.
  The first component says whether the loop goes on (\<open>False\<close> for the \<^verbatim>\<open>break\<close> of
  the pre-emptive termination).
\<close>

definition tunnel_grid :: "extern \<Rightarrow> int \<Rightarrow> int \<Rightarrow> int \<Rightarrow> int \<Rightarrow> tunnel_vars \<Rightarrow> bool \<times> tunnel_vars" where
  "tunnel_grid E start_row start_col tmp_row tmp_col v =
     (let s = st v; c = grid s; f = cave_feat c tmp_row tmp_col
      in if f = FEAT_PERM_SOLID then (True, v)
         else if f = FEAT_PERM_OUTER then (True, v)
         else if f = FEAT_WALL_SOLID then (True, v)
         else if f = FEAT_WALL_OUTER
         then (let y = tmp_row + row_dir v;
                   x = tmp_col + col_dir v;
                   n = cave_feat c y x
               in if n = FEAT_PERM_SOLID then (True, v)
                  else if n = FEAT_PERM_OUTER then (True, v)
                  else if n = FEAT_WALL_OUTER then (True, v)
                  else if n = FEAT_WALL_SOLID then (True, v)
                  else (True, v\<lparr>row1 := tmp_row, col1 := tmp_col,
                                 st := s\<lparr>dun := (dun s)\<lparr>wall :=
                                            save_grid WALL_MAX (tmp_row, tmp_col) (wall (dun s))\<rparr>,
                                         grid := forbid_reentry tmp_row tmp_col c\<rparr>\<rparr>))
         else if cave_room c tmp_row tmp_col
         then (True, v\<lparr>row1 := tmp_row, col1 := tmp_col\<rparr>)
         else if ge_WALL_EXTRA f
         then (True, v\<lparr>row1 := tmp_row, col1 := tmp_col, door_flag := False,
                        st := s\<lparr>dun := (dun s)\<lparr>tunn :=
                                   save_grid TUNN_MAX (tmp_row, tmp_col) (tunn (dun s))\<rparr>\<rparr>\<rparr>)
         else (let s1 = (if \<not> door_flag v
                         then s\<lparr>dun := (dun s)\<lparr>door :=
                                   save_grid DOOR_MAX (tmp_row, tmp_col) (door (dun s))\<rparr>\<rparr>
                         else s);
                   (roll, r') = rand_int E 100 (rnd s1);
                   v1 = v\<lparr>row1 := tmp_row, col1 := tmp_col, door_flag := True,
                          st := s1\<lparr>rnd := r'\<rparr>\<rparr>
               in if roll \<ge> DUN_TUN_CON
                     \<and> (\<bar>tmp_row - start_row\<bar> > 10 \<or> \<bar>tmp_col - start_col\<bar> > 10)
                  then (False, v1) else (True, v1)))"

text \<open>
  "Do not leave the dungeon": the inner \<^verbatim>\<open>while (!in_bounds_fully(tmp_row, tmp_col))\<close>
  draws new directions until the next location is inside. Nothing bounds it in the
  source; here it gets \<open>fuel\<close> rounds and is \<open>None\<close> when they do not suffice.
\<close>

fun stay_inside :: "extern \<Rightarrow> nat \<Rightarrow> int \<Rightarrow> int \<Rightarrow> tunnel_vars \<Rightarrow> tunnel_vars option" where
  "stay_inside E 0 row2 col2 v =
     (if in_bounds_fully (row1 v + row_dir v) (col1 v + col_dir v) then Some v else None)"
| "stay_inside E (Suc fuel) row2 col2 v =
     (if in_bounds_fully (row1 v + row_dir v) (col1 v + col_dir v) then Some v
      else let (d, r1) = correct_dir E (row1 v) (col1 v) row2 col2 (rnd (st v));
               (roll, r2) = rand_int E 100 r1;
               (d', r3) = (if roll < DUN_TUN_RND then rand_dir E r2 else (d, r2))
           in stay_inside E fuel row2 col2
                (v\<lparr>row_dir := fst d', col_dir := snd d', st := (st v)\<lparr>rnd := r3\<rparr>\<rparr>))"

text \<open>"Allow bends in the tunnel", at the head of the loop body.\<close>

definition bend :: "extern \<Rightarrow> int \<Rightarrow> int \<Rightarrow> tunnel_vars \<Rightarrow> tunnel_vars" where
  "bend E row2 col2 v =
     (let (roll, r1) = rand_int E 100 (rnd (st v))
      in if roll < DUN_TUN_CHG
         then (let (d, r2) = correct_dir E (row1 v) (col1 v) row2 col2 r1;
                   (roll2, r3) = rand_int E 100 r2;
                   (d', r4) = (if roll2 < DUN_TUN_RND then rand_dir E r3 else (d, r3))
               in v\<lparr>row_dir := fst d', col_dir := snd d', st := (st v)\<lparr>rnd := r4\<rparr>\<rparr>)
         else v\<lparr>st := (st v)\<lparr>rnd := r1\<rparr>\<rparr>)"

text \<open>
  The main loop of \<^verbatim>\<open>build_tunnel\<close>; \<open>n\<close> is \<^verbatim>\<open>main_loop_count\<close>, and the loop
  gives up when it is above 2000.
\<close>

function tunnel_loop ::
    "extern \<Rightarrow> nat \<Rightarrow> int \<Rightarrow> int \<Rightarrow> int \<Rightarrow> int \<Rightarrow> int \<Rightarrow> tunnel_vars \<Rightarrow> tunnel_vars option" where
  "tunnel_loop E fuel start_row start_col row2 col2 n v =
     (if row1 v = row2 \<and> col1 v = col2 then Some v
      else if n > 2000 then Some v
      else case stay_inside E fuel row2 col2 (bend E row2 col2 v) of
             None \<Rightarrow> None
           | Some v2 \<Rightarrow>
               (case tunnel_grid E start_row start_col
                       (row1 v2 + row_dir v2) (col1 v2 + col_dir v2) v2 of
                  (True, v3) \<Rightarrow> tunnel_loop E fuel start_row start_col row2 col2 (n + 1) v3
                | (False, v3) \<Rightarrow> Some v3))"
  by pat_completeness auto
termination
  by (relation "measure (\<lambda>(E, fuel, start_row, start_col, row2, col2, n, v). nat (2001 - n))") auto

text \<open>"Turn the tunnel into corridor" and "Apply the piercings that we found".\<close>

definition carve_tunnel :: "gen_state \<Rightarrow> gen_state" where
  "carve_tunnel s =
     s\<lparr>grid := fold (\<lambda>g. cave_set_feat (fst g) (snd g) FEAT_FLOOR) (tunn (dun s)) (grid s)\<rparr>"

definition apply_piercing :: "extern \<Rightarrow> int \<times> int \<Rightarrow> cave \<times> rng \<Rightarrow> cave \<times> rng" where
  "apply_piercing E g cr =
     (let c = cave_set_feat (fst g) (snd g) FEAT_FLOOR (fst cr);
          (roll, r) = rand_int E 100 (snd cr)
      in if roll < DUN_TUN_PEN then place_random_door E (fst g) (snd g) (c, r) else (c, r))"

definition apply_piercings :: "extern \<Rightarrow> gen_state \<Rightarrow> gen_state" where
  "apply_piercings E s =
     (let cr = fold (apply_piercing E) (wall (dun s)) (grid s, rnd s)
      in s\<lparr>grid := fst cr, rnd := snd cr\<rparr>)"

definition build_tunnel :: "extern \<Rightarrow> nat \<Rightarrow> int \<Rightarrow> int \<Rightarrow> int \<Rightarrow> int \<Rightarrow> gen_state \<Rightarrow> gen_state option" where
  "build_tunnel E fuel row col row2 col2 s =
     (let s0 = s\<lparr>dun := (dun s)\<lparr>tunn := [], wall := []\<rparr>\<rparr>;
          (d, r) = correct_dir E row col row2 col2 (rnd s0);
          v = \<lparr>row1 = row, col1 = col, row_dir = fst d, col_dir = snd d,
               door_flag = False, st = s0\<lparr>rnd := r\<rparr>\<rparr>
      in case tunnel_loop E fuel row col row2 col2 0 v of
           None \<Rightarrow> None
         | Some v' \<Rightarrow> Some (apply_piercings E (carve_tunnel (st v'))))"

text \<open>The loop variables of \<^verbatim>\<open>build_tunnel_winding\<close>: the walker's grid \<^verbatim>\<open>(y, x)\<close>.\<close>

record winding_vars =
  walk_y :: int
  walk_x :: int
  walk_door_flag :: bool
  walk_st :: gen_state

text \<open>
  What the walker does with the grid it has just moved onto ("Logic from build\_tunnel to
  handle walls/doors/etc"). At an outer wall it only saves the location: the source says
  "Simplified: just mark as wall piercing" and "We don't implement the complex solid wall
  conversion here".
\<close>

definition winding_grid :: "winding_vars \<Rightarrow> winding_vars" where
  "winding_grid v =
     (let s = walk_st v; c = grid s; y = walk_y v; x = walk_x v; f = cave_feat c y x
      in if f = FEAT_PERM_SOLID then v
         else if f = FEAT_PERM_OUTER then v
         else if f = FEAT_WALL_SOLID then v
         else if f = FEAT_WALL_OUTER
         then v\<lparr>walk_st := s\<lparr>dun := (dun s)\<lparr>wall := save_grid WALL_MAX (y, x) (wall (dun s))\<rparr>\<rparr>\<rparr>
         else if cave_room c y x then v
         else if ge_WALL_EXTRA f
         then v\<lparr>walk_door_flag := False,
                walk_st := s\<lparr>dun := (dun s)\<lparr>tunn := save_grid TUNN_MAX (y, x) (tunn (dun s))\<rparr>\<rparr>\<rparr>
         else if \<not> walk_door_flag v
         then v\<lparr>walk_door_flag := True,
                walk_st := s\<lparr>dun := (dun s)\<lparr>door := save_grid DOOR_MAX (y, x) (door (dun s))\<rparr>\<rparr>\<rparr>
         else v)"

text \<open>The direction of one step: 60 percent towards the target, else any of four.\<close>

definition winding_dir :: "extern \<Rightarrow> int \<Rightarrow> int \<Rightarrow> int \<Rightarrow> int \<Rightarrow> rng \<Rightarrow> (int \<times> int) \<times> rng" where
  "winding_dir E y x row2 col2 r =
     (let (roll, r1) = rand_int E 100 r
      in if roll < 60
         then (let dir_y = (if y < row2 then 1 else if y > row2 then -1 else 0);
                   dir_x = (if x < col2 then 1 else if x > col2 then -1 else 0)
               in if dir_y \<noteq> 0 \<and> dir_x \<noteq> 0
                  then (let (coin, r2) = rand_int E 2 r1
                        in if coin = 0 then ((dir_y, 0), r2) else ((0, dir_x), r2))
                  else ((dir_y, dir_x), r1))
         else (let (d, r2) = rand_int E 4 r1
               in ((ddy_ddd E (nat d), ddx_ddd E (nat d)), r2)))"

text \<open>The \<^verbatim>\<open>while\<close> loop of the walker; the result carries the final \<^verbatim>\<open>loop\<close>.\<close>

function winding_loop :: "extern \<Rightarrow> int \<Rightarrow> int \<Rightarrow> int \<Rightarrow> winding_vars \<Rightarrow> int \<times> winding_vars" where
  "winding_loop E row2 col2 loop v =
     (if \<not> (walk_y v = row2 \<and> walk_x v = col2) \<and> loop < 20000
      then (let (d, r) = winding_dir E (walk_y v) (walk_x v) row2 col2 (rnd (walk_st v));
                v1 = v\<lparr>walk_st := (walk_st v)\<lparr>rnd := r\<rparr>\<rparr>
            in if \<not> in_bounds (walk_y v + fst d) (walk_x v + snd d)
               then winding_loop E row2 col2 (loop + 1) v1
               else winding_loop E row2 col2 (loop + 1)
                      (winding_grid (v1\<lparr>walk_y := walk_y v + fst d, walk_x := walk_x v + snd d\<rparr>)))
      else (loop, v))"
  by pat_completeness auto
termination
  by (relation "measure (\<lambda>(E, row2, col2, loop, v). nat (20000 - loop))") auto

definition build_tunnel_winding ::
    "extern \<Rightarrow> nat \<Rightarrow> int \<Rightarrow> int \<Rightarrow> int \<Rightarrow> int \<Rightarrow> gen_state \<Rightarrow> gen_state option" where
  "build_tunnel_winding E fuel row col row2 col2 s =
     (let s0 = s\<lparr>dun := (dun s)\<lparr>tunn := [], wall := [], door := []\<rparr>\<rparr>;
          (loop, v) = winding_loop E row2 col2 0
                        \<lparr>walk_y = row, walk_x = col, walk_door_flag = False, walk_st = s0\<rparr>
      in if loop \<ge> 20000 then build_tunnel E fuel row col row2 col2 (walk_st v)
         else Some (apply_piercings E (carve_tunnel (walk_st v))))"

section \<open>Staircases (generate.c)\<close>

text \<open>The values of \<^verbatim>\<open>p_ptr->inside_special\<close>; \<open>SPECIAL_NONE\<close> is zero.\<close>

datatype special =
    SPECIAL_NONE | SPECIAL_ARENA | SPECIAL_MAGIC_ARENA | SPECIAL_QUEST
  | SPECIAL_STORE | SPECIAL_WILD | SPECIAL_DREAM

text \<open>The fields of \<^verbatim>\<open>p_ptr\<close> that the generator reads.\<close>

record player =
  depth :: int
  inside_special :: special

definition next_to_walls :: "cave \<Rightarrow> int \<Rightarrow> int \<Rightarrow> int" where
  "next_to_walls c y x =
     (if ge_WALL_EXTRA (cave_feat c (y + 1) x) then 1 else 0)
     + (if ge_WALL_EXTRA (cave_feat c (y - 1) x) then 1 else 0)
     + (if ge_WALL_EXTRA (cave_feat c y (x + 1)) then 1 else 0)
     + (if ge_WALL_EXTRA (cave_feat c y (x - 1)) then 1 else 0)"

text \<open>
  The feature \<^verbatim>\<open>alloc_stairs\<close> writes: down in the town (a shaft in the wilderness), up
  on quest levels and at the bottom, the requested one elsewhere.
\<close>

definition stair_feat :: "extern \<Rightarrow> player \<Rightarrow> feat \<Rightarrow> feat" where
  "stair_feat E P f =
     (if depth P = 0
      then (if inside_special P = SPECIAL_WILD then FEAT_SHAFT else FEAT_MORE)
      else if inside_special P = SPECIAL_QUEST \<or> depth P \<ge> MAX_DEPTH E - 1 then FEAT_LESS
      else f)"

text \<open>
  The innermost loop, \<^verbatim>\<open>for (j = 0; !flag && j < 3000; j++)\<close>: random grids are tried
  until one is a naked floor grid (in a room, if so requested) with enough walls next to
  it. The first component of the result is \<^verbatim>\<open>flag\<close>.
\<close>

function try_stairs ::
    "extern \<Rightarrow> player \<Rightarrow> feat \<Rightarrow> int \<Rightarrow> bool \<Rightarrow> int \<Rightarrow> cave \<times> rng \<Rightarrow> bool \<times> cave \<times> rng" where
  "try_stairs E P f walls force_room j cr =
     (if j < 3000
      then (let (y, r1) = rand_int E DUNGEON_HGT (snd cr);
                (x, r2) = rand_int E DUNGEON_WID r1;
                c = fst cr
            in if \<not> cave_naked_bold c y x
               then try_stairs E P f walls force_room (j + 1) (c, r2)
               else if force_room \<and> \<not> cave_room c y x
               then try_stairs E P f walls force_room (j + 1) (c, r2)
               else if next_to_walls c y x < walls
               then try_stairs E P f walls force_room (j + 1) (c, r2)
               else (True, cave_set_feat y x (stair_feat E P f) c, r2))
      else (False, cr))"
  by pat_completeness auto
termination
  by (relation "measure (\<lambda>(E, P, f, walls, force_room, j, cr). nat (3000 - j))") auto

text \<open>
  \<^verbatim>\<open>for (flag = FALSE; !flag;)\<close>: rounds of 3000 tries, each followed by
  \<^verbatim>\<open>if (walls) walls--\<close>, until a staircase is placed. Nothing bounds the rounds in the
  source; here there are at most \<open>fuel\<close> of them, and \<open>None\<close> says they did not suffice.
  The result carries \<^verbatim>\<open>walls\<close>, which the next staircase starts from.
\<close>

fun place_stair ::
    "extern \<Rightarrow> player \<Rightarrow> feat \<Rightarrow> bool \<Rightarrow> nat \<Rightarrow> int \<Rightarrow> cave \<times> rng \<Rightarrow> (int \<times> cave \<times> rng) option" where
  "place_stair E P f force_room 0 walls cr = None"
| "place_stair E P f force_room (Suc fuel) walls cr =
     (let res = try_stairs E P f walls force_room 0 cr;
          walls' = (if walls \<noteq> 0 then walls - 1 else walls)
      in if fst res then Some (walls', snd res)
         else place_stair E P f force_room fuel walls' (snd res))"

text \<open>\<^verbatim>\<open>for (i = 0; i < num; i++)\<close>.\<close>

function stairs_loop ::
    "extern \<Rightarrow> player \<Rightarrow> feat \<Rightarrow> bool \<Rightarrow> nat \<Rightarrow> int \<Rightarrow> int \<Rightarrow> int \<Rightarrow> cave \<times> rng \<Rightarrow> (cave \<times> rng) option" where
  "stairs_loop E P f force_room fuel i num walls cr =
     (if i < num
      then (case place_stair E P f force_room fuel walls cr of
              None \<Rightarrow> None
            | Some (walls', cr') \<Rightarrow> stairs_loop E P f force_room fuel (i + 1) num walls' cr')
      else Some cr)"
  by pat_completeness auto
termination
  by (relation "measure (\<lambda>(E, P, f, force_room, fuel, i, num, walls, cr). nat (num - i))") auto

definition alloc_stairs ::
    "extern \<Rightarrow> player \<Rightarrow> nat \<Rightarrow> feat \<Rightarrow> int \<Rightarrow> int \<Rightarrow> bool \<Rightarrow> cave \<times> rng \<Rightarrow> (cave \<times> rng) option" where
  "alloc_stairs E P fuel f num walls force_room cr =
     (if inside_special P = SPECIAL_DREAM \<and> f = FEAT_LESS then Some cr
      else if inside_special P = SPECIAL_DREAM \<and> f = FEAT_MORE
      then stairs_loop E P FEAT_DREAM_EXIT force_room fuel 0 (if num > 1 then 1 else num) walls cr
      else stairs_loop E P f force_room fuel 0 num walls cr)"

text \<open>
  The two calls in \<^verbatim>\<open>cave_gen\<close>, under the comments "Place 3 or 4 down stairs near some
  walls" and "Place 1 or 2 up stairs near some walls":
  \<^verbatim>\<open>alloc_stairs(FEAT_MORE, rand_range(100, 120), 3, ...)\<close> and
  \<^verbatim>\<open>alloc_stairs(FEAT_LESS, rand_range(40, 60), 3, ...)\<close>.
\<close>

definition cave_gen_down_stairs ::
    "extern \<Rightarrow> player \<Rightarrow> nat \<Rightarrow> feat \<Rightarrow> cave \<times> rng \<Rightarrow> (cave \<times> rng) option" where
  "cave_gen_down_stairs E P fuel level_bg cr =
     (let (num, r) = rand_range E 100 120 (snd cr)
      in alloc_stairs E P fuel FEAT_MORE num 3
           (level_bg = FEAT_FOG \<or> level_bg = FEAT_CHAOS_FOG) (fst cr, r))"

definition cave_gen_up_stairs ::
    "extern \<Rightarrow> player \<Rightarrow> nat \<Rightarrow> feat \<Rightarrow> cave \<times> rng \<Rightarrow> (cave \<times> rng) option" where
  "cave_gen_up_stairs E P fuel level_bg cr =
     (let (num, r) = rand_range E 40 60 (snd cr)
      in alloc_stairs E P fuel FEAT_LESS num 3
           (level_bg = FEAT_FOG \<or> level_bg = FEAT_CHAOS_FOG) (fst cr, r))"

text \<open>All grids of the level, row by row, and how many of them hold a given feature.\<close>

definition all_grids :: "(int \<times> int) list" where
  "all_grids = List.product [0..DUNGEON_HGT - 1] [0..DUNGEON_WID - 1]"

definition count_feat :: "feat \<Rightarrow> cave \<Rightarrow> nat" where
  "count_feat f c = length (filter (\<lambda>g. cave_feat c (fst g) (snd g) = f) all_grids)"

section \<open>The outer ring (generate.c)\<close>









section \<open>Wilderness corners (generate.c, terrain\_gen)\<close>


definition HASH_LEVEL :: "32 word \<Rightarrow> 32 word \<Rightarrow> 32 word \<Rightarrow> 32 word" where
  "HASH_LEVEL seed_wild X Y = (Y - X) XOR (Y AND (X + seed_wild))"





section \<open>Seeding, and the cover pass (generate.c)\<close>







section \<open>Concrete inputs\<close>

text \<open>
  A concrete instance of the absent declarations, for evaluating the functions on
  explicit inputs: Angband's \<^verbatim>\<open>distance\<close> (the longer axis plus half the shorter), its
  direction tables (down, up, right, left, then the diagonals), a linear congruential
  generator for the quick mode, a barrel explosion that leaves the level as it is, and
  sample values for the tunable constants.
\<close>

definition angband_distance :: "int \<Rightarrow> int \<Rightarrow> int \<Rightarrow> int \<Rightarrow> int" where
  "angband_distance y1 x1 y2 x2 =
     (let dy = \<bar>y1 - y2\<bar>; dx = \<bar>x1 - x2\<bar>
      in if dy > dx then dy + dx div 2 else dx + dy div 2)"

definition sample_extern :: extern where
  "sample_extern =
     \<lparr>distance = angband_distance,
      ddy_ddd = (\<lambda>i. [1, -1, 0, 0, 1, 1, -1, -1] ! i),
      ddx_ddd = (\<lambda>i. [0, 0, 1, -1, 1, -1, 1, -1] ! i),
      Rand_quick_draw = (\<lambda>v. (uint (drop_bit 16 (v * 1103515245 + 12345)),
                               v * 1103515245 + 12345)),
      barrel_explosion = (\<lambda>y x c. c),
      COVER_ABSORB_LIGHT = 25,
      COVER_ABSORB_MEDIUM = 50,
      COVER_ABSORB_HEAVY = 75,
      COVER_ABSORB_TOTAL = 100,
      COVER_DURABILITY_TREE = 50,
      COVER_DURABILITY_BOULDER = 100,
      COVER_DURABILITY_WALL = 200,
      MAX_DEPTH = 128\<rparr>"

text \<open>A level of bare floor everywhere, with no objects, monsters, rooms or cover.\<close>

definition floor_cave :: cave where
  "floor_cave =
     \<lparr>cave_feat = (\<lambda>y x. FEAT_FLOOR), cave_room = (\<lambda>y x. False),
      cave_o_idx = (\<lambda>y x. 0), cave_m_idx = (\<lambda>y x. 0), cave_cover = (\<lambda>y x. None)\<rparr>"

text \<open>The unseeded generator about to produce the draws \<open>vs\<close>.\<close>

definition draws :: "int list \<Rightarrow> rng" where
  "draws vs = \<lparr>Rand_quick = False, Rand_value = 0, Rand_state = vs\<rparr>"

text \<open>
  A level with an inner wall at (5, 5) that carries a cover record of tier MEDIUM and
  durability \<open>k\<close>.
\<close>

definition worn :: "int \<Rightarrow> cave" where
  "worn k =
     (cave_set_feat 5 5 FEAT_WALL_INNER floor_cave)
       \<lparr>cave_cover := (\<lambda>y x. if y = 5 \<and> x = 5
                              then Some \<lparr>durability = k, max_durability = 20,
                                         cover_type = COVER_MEDIUM,
                                         terrain_feat = FEAT_WALL_INNER\<rparr>
                              else None)\<rparr>"

text \<open>Bare floor with one grid of feature \<open>f\<close> at (5, 5).\<close>

definition fog_line :: "feat \<Rightarrow> cave" where
  "fog_line f = cave_set_feat 5 5 f floor_cave"


text \<open>
  A guard in state CHASE standing at \<open>(y, x)\<close>, whose last known target is (7, 7) and
  whose chase timer has run down to 0; and a turn on which the player has no line of
  sight to it.
\<close>

definition chaser :: "int \<Rightarrow> int \<Rightarrow> patrol_monster" where
  "chaser y x =
     \<lparr>fy = y, fx = x,
      guard = \<lparr>guard_state = GUARD_STATE_CHASE, patrol_type = PATROL_TYPE_CIRCUIT,
               home_y = 5, home_x = 5, alert_y = 7, alert_x = 7, chase_timer = 0,
               waypoints = (\<lambda>i. \<lparr>wp_y = 5, wp_x = 5, wait_turns = 0\<rparr>),
               num_waypoints = 0, current_waypoint = 0\<rparr>\<rparr>"

definition unseen_turn :: patrol_env where
  "unseen_turn =
     \<lparr>player_los = False, py = 20, px = 20, stealth = 1, aaf = 10,
      cave_floor_bold = (\<lambda>y x. True),
      GUARD_CHASE_TIMEOUT = 20, PATROL_REST_TURNS = 10, PATROL_RADIUS = 5\<rparr>"

text \<open>
  Bare floor with four grids of outer wall: (4, 5), (5, 5) and (6, 5) in a column, and
  (5, 6) behind the middle one. The tunnelers start on it with empty arrays and the
  unseeded generator about to produce the draws \<open>vs\<close>.
\<close>

definition wall_corner :: cave where
  "wall_corner =
     fold (\<lambda>g. cave_set_feat (fst g) (snd g) FEAT_WALL_OUTER)
       [(4, 5), (5, 5), (6, 5), (5, 6)] floor_cave"

definition tunnel_start :: "int list \<Rightarrow> gen_state" where
  "tunnel_start vs =
     \<lparr>grid = wall_corner, dun = \<lparr>cent = [], door = [], wall = [], tunn = []\<rparr>, rnd = draws vs\<rparr>"

text \<open>The straight tunneler at \<open>(r, c)\<close> heading right, and the walker standing on (5, 5).\<close>

definition digger :: "int \<Rightarrow> int \<Rightarrow> tunnel_vars" where
  "digger r c =
     \<lparr>row1 = r, col1 = c, row_dir = 0, col_dir = 1, door_flag = False, st = tunnel_start []\<rparr>"

definition walker :: winding_vars where
  "walker = \<lparr>walk_y = 5, walk_x = 5, walk_door_flag = False, walk_st = tunnel_start []\<rparr>"



text \<open>
  The equations of the loops are unfolded by hand where a run is evaluated, and are not
  rewrite rules.
\<close>

declare winding_loop.simps [simp del] tunnel_loop.simps [simp del]
declare try_stairs.simps [simp del] stairs_loop.simps [simp del]

text \<open>
  A level whose floor grids are the grids with both coordinates odd, each walled in by
  granite on its four sides; a player at depth 5 on an ordinary level; and the draws that
  make \<^verbatim>\<open>rand_range(40, 60)\<close> return 40 and then pick the grids (1, 1), (1, 3), ...,
  (1, 79) in turn.
\<close>

definition pitted :: cave where
  "pitted = floor_cave\<lparr>cave_feat := (\<lambda>y x. if y mod 2 = 1 \<and> x mod 2 = 1 then FEAT_FLOOR
                                            else FEAT_WALL_EXTRA)\<rparr>"

definition deep_level :: player where
  "deep_level = \<lparr>depth = 5, inside_special = SPECIAL_NONE\<rparr>"

definition forty_draws :: "int list" where
  "forty_draws =
       [0, 1, 1, 1, 3, 1, 5, 1, 7, 1, 9, 1, 11, 1, 13, 1, 15, 1, 17, 1, 19, 1, 21, 1,
        23, 1, 25, 1, 27, 1, 29, 1, 31, 1, 33, 1, 35, 1, 37, 1, 39, 1, 41, 1, 43, 1, 45,
        1, 47, 1, 49, 1, 51, 1, 53, 1, 55, 1, 57, 1, 59, 1, 61, 1, 63, 1, 65, 1, 67, 1,
        69, 1, 71, 1, 73, 1, 75, 1, 77, 1, 79]"

text \<open>Bare floor with one stone pillar at (11, 10), just below the grid (10, 10).\<close>

definition pillar_behind :: cave where
  "pillar_behind = cave_set_feat 11 10 FEAT_STONE_PILLAR floor_cave"

section \<open>Results\<close>

subsection \<open>Basic facts\<close>

lemma cave_feat_set [simp]:
  "cave_feat (cave_set_feat y0 x0 f c) y x = (if y = y0 \<and> x = x0 then f else cave_feat c y x)"
  by (simp add: cave_set_feat_def)

lemma cave_cover_set [simp]: "cave_cover (cave_set_feat y0 x0 f c) = cave_cover c"
  by (simp add: cave_set_feat_def)

lemmas cover_consts = COVER_NONE_def COVER_LIGHT_def COVER_MEDIUM_def COVER_HEAVY_def COVER_TOTAL_def
lemmas grid_consts = in_bounds_def DUNGEON_HGT_def DUNGEON_WID_def

subsection \<open>The run-length writer\<close>

lemma rle_cell_zero:
  "unat c < 255 \<Longrightarrow>
   rle_cell 0 \<lparr>count = c, prev_char = 0, out = s\<rparr> = \<lparr>count = c + 1, prev_char = 0, out = s\<rparr>"
  by (auto simp: rle_cell_def MAX_UCHAR_def)

lemma zero_run:
  "unat c + length xs \<le> 255 \<Longrightarrow>
   fold (\<lambda>x. rle_cell 0) xs \<lparr>count = c, prev_char = 0, out = s\<rparr>
     = \<lparr>count = c + of_nat (length xs), prev_char = 0, out = s\<rparr>"
proof (induction xs arbitrary: c)
  case Nil
  then show ?case by simp
next
  case (Cons x xs)
  from Cons.prems have lt: "unat c < 255" by simp
  then have u: "unat (c + 1) = unat c + 1"
    by (simp add: unat_word_ariths)
  from Cons.prems u have "unat (c + 1) + length xs \<le> 255" by simp
  from Cons.IH [OF this] lt show ?case
    by (simp add: rle_cell_zero add.assoc)
qed

lemma zero_rows:
  "unat c + length ys * w \<le> 255 \<Longrightarrow>
   fold (\<lambda>y. fold (\<lambda>x. rle_cell 0) [0..<w]) ys \<lparr>count = c, prev_char = 0, out = s\<rparr>
     = \<lparr>count = c + of_nat (length ys * w), prev_char = 0, out = s\<rparr>"
proof (induction ys arbitrary: c)
  case Nil
  then show ?case by simp
next
  case (Cons y ys)
  from Cons.prems have a: "unat c + length [0..<w] \<le> 255" by simp
  have u: "unat (c + of_nat w) = unat c + w"
    using Cons.prems by (simp add: unat_word_ariths unat_of_nat)
  from Cons.prems u have "unat (c + of_nat w) + length ys * w \<le> 255" by simp
  from Cons.IH [OF this] zero_run [OF a] show ?case
    by (simp add: add.assoc)
qed

lemma rle_scan_zero:
  assumes "\<forall>y<RLE_HGT. \<forall>x<RLE_WID. cells y x = 0"
  shows "rle_scan cells \<lparr>count = 0, prev_char = 0, out = s\<rparr>
           = \<lparr>count = 100, prev_char = 0, out = s\<rparr>"
proof -
  have row: "fold (\<lambda>x. rle_cell (cells y x)) [0..<RLE_WID] q
               = fold (\<lambda>x. rle_cell 0) [0..<RLE_WID] q" if "y < RLE_HGT" for y q
    using assms that by (intro fold_cong) auto
  have "rle_scan cells r = fold (\<lambda>y. fold (\<lambda>x. rle_cell 0) [0..<RLE_WID]) [0..<RLE_HGT] r" for r
    unfolding rle_scan_def by (rule fold_cong) (auto simp: row)
  then show ?thesis
    using zero_rows [of 0 "[0..<RLE_HGT]" RLE_WID s]
    by (simp add: RLE_HGT_def RLE_WID_def)
qed

text \<open>
  C1. On a 10x10 grid whose cells are all zero, the writer with the terminal flush
  (\<open>fix = 1\<close>) leaves exactly two bytes in the buffer, the pair (100, 0), whatever the
  buffer held before; without the flush (\<open>fix = 0\<close>) it writes nothing.
\<close>

theorem wr_dungeon_sim_all_zero:
  assumes "\<forall>y<RLE_HGT. \<forall>x<RLE_WID. cells y x = 0"
  shows "buf_pos (wr_dungeon_sim cells 1 s) = 2
         \<and> buffer (wr_dungeon_sim cells 1 s) 0 = 100
         \<and> buffer (wr_dungeon_sim cells 1 s) 1 = 0
         \<and> buf_pos (wr_dungeon_sim cells 0 s) = 0"
  by (simp add: wr_dungeon_sim_def rle_scan_zero [OF assms] flush_run_def wr_byte_def)

theorem wr_dungeon_sim_all_zero_witness:
  "buf_pos (wr_dungeon_sim (\<lambda>y x. 0) 1 \<lparr>buffer = (\<lambda>i. 7), buf_pos = 5\<rparr>) = 2
   \<and> buffer (wr_dungeon_sim (\<lambda>y x. 0) 1 \<lparr>buffer = (\<lambda>i. 7), buf_pos = 5\<rparr>) 0 = 100
   \<and> buffer (wr_dungeon_sim (\<lambda>y x. 0) 1 \<lparr>buffer = (\<lambda>i. 7), buf_pos = 5\<rparr>) 1 = 0
   \<and> buf_pos (wr_dungeon_sim (\<lambda>y x. 0) 0 \<lparr>buffer = (\<lambda>i. 7), buf_pos = 5\<rparr>) = 0"
  using wr_dungeon_sim_all_zero [of "\<lambda>y x. 0" "\<lparr>buffer = (\<lambda>i. 7), buf_pos = 5\<rparr>"] by simp

subsection \<open>The cover lookup\<close>

text \<open>
  C10. \<open>get_cover_at\<close> answers for every coordinate: out of bounds it is COVER\_NONE;
  where a cover record exists, its tier is returned while the durability is positive, and
  COVER\_NONE when the durability is zero or below, whatever the record's tier and the
  feature underneath.
\<close>

theorem get_cover_at_guarded:
  "(\<not> in_bounds y x \<longrightarrow> get_cover_at c y x = COVER_NONE)
   \<and> (in_bounds y x \<longrightarrow> cave_cover c y x = Some d \<longrightarrow> 0 < durability d
        \<longrightarrow> get_cover_at c y x = cover_type d)
   \<and> (in_bounds y x \<longrightarrow> cave_cover c y x = Some d \<longrightarrow> durability d \<le> 0
        \<longrightarrow> get_cover_at c y x = COVER_NONE)"
  by (simp add: get_cover_at_def)

theorem get_cover_at_guarded_witness:
  "get_cover_at (worn 0) (-1) 5 = COVER_NONE
   \<and> get_cover_at (worn 0) 5 198 = COVER_NONE
   \<and> get_cover_at (worn 7) 5 5 = COVER_MEDIUM
   \<and> get_cover_at (worn 0) 5 5 = COVER_NONE
   \<and> get_cover_at (worn (-3)) 5 5 = COVER_NONE"
  using get_cover_at_guarded [of "-1" 5 "worn 0"]
    get_cover_at_guarded [of 5 198 "worn 0"]
    get_cover_at_guarded [of 5 5 "worn 7" "\<lparr>durability = 7, max_durability = 20, cover_type = COVER_MEDIUM, terrain_feat = FEAT_WALL_INNER\<rparr>"]
    get_cover_at_guarded [of 5 5 "worn 0" "\<lparr>durability = 0, max_durability = 20, cover_type = COVER_MEDIUM, terrain_feat = FEAT_WALL_INNER\<rparr>"]
    get_cover_at_guarded [of 5 5 "worn (-3)" "\<lparr>durability = -3, max_durability = 20, cover_type = COVER_MEDIUM, terrain_feat = FEAT_WALL_INNER\<rparr>"]
  by (simp add: worn_def in_bounds_def DUNGEON_HGT_def DUNGEON_WID_def)


subsection \<open>Wilderness corners\<close>

lemma rand_int_quick:
  "Rand_quick r \<Longrightarrow> Rand_quick (snd (rand_int E m r))"
  by (simp add: rand_int_def split: prod.splits)





subsection \<open>The outer ring\<close>



lemma fold_grids_feat:
  "cave_feat (fold (\<lambda>g. cave_set_feat (fst g) (snd g) f) gs c) y x
     = (if (y, x) \<in> set gs then f else cave_feat c y x)"
  by (induction gs arbitrary: c) auto


lemma set_all_grids: "(y, x) \<in> set all_grids \<longleftrightarrow> in_bounds y x"
  by (force simp: all_grids_def in_bounds_def)





subsection \<open>Fog on the line of fire\<close>

lemma cover_line_skips_fog:
  assumes "in_bounds (ay + c_div (dy * i) dist) (ax + c_div (dx * i) dist)"
    and "cave_feat c (ay + c_div (dy * i) dist) (ax + c_div (dx * i) dist)
           \<in> {FEAT_FOG, FEAT_FOG_DENSE, FEAT_SMOKE}"
  shows "cover_line c ay ax dy dx dist (i # is) best
           = cover_line c ay ax dy dx dist is best"
  using assms by (auto simp: Let_def)

text \<open>
  C7 fails on the code for chaos fog. On a line of bare floor from the attacker at (5, 3)
  to the target at (5, 7), a grid of chaos fog at (5, 5) raises the directional cover to
  LIGHT, while fog, dense fog and smoke on the same grid leave it at NONE.
\<close>

theorem chaos_fog_on_line:
  "get_cover_vs_direction sample_extern (fog_line FEAT_CHAOS_FOG) 5 7 5 3 = COVER_LIGHT
   \<and> get_cover_vs_direction sample_extern (fog_line FEAT_FOG) 5 7 5 3 = COVER_NONE
   \<and> get_cover_vs_direction sample_extern (fog_line FEAT_FOG_DENSE) 5 7 5 3 = COVER_NONE
   \<and> get_cover_vs_direction sample_extern (fog_line FEAT_SMOKE) 5 7 5 3 = COVER_NONE"
  by (simp add: get_cover_vs_direction_def sample_extern_def angband_distance_def fog_line_def
      floor_cave_def get_cover_at_def c_div_def cover_consts grid_consts upto.simps)

theorem chaos_fog_on_line_witness:
  "get_cover_vs_direction sample_extern (fog_line FEAT_CHAOS_FOG) 5 7 5 3
     \<noteq> get_cover_vs_direction sample_extern (fog_line FEAT_FOG) 5 7 5 3"
  using chaos_fog_on_line by (simp add: cover_consts)

subsection \<open>An attack blocked by directional cover\<close>






lemma uncovered_attack_hits:
  "get_cover_vs_direction E c ty tx ay ax = COVER_NONE \<Longrightarrow>
   attack_through_cover E ay ax ty tx damage (c, r)
     = \<lparr>hits = True, damage_out = damage, cover_damage_out = 0, after = (c, r)\<rparr>"
  by (simp add: attack_through_cover_def)

text \<open>
  The test for a block comes after the return for "No cover = full damage". With Angband's
  direction tables, an attacker at (8, 10) and a pillar at (11, 10), the attack on (10, 10)
  counts as blocked by directional cover, yet no cover lies on the line: it hits with the
  full damage.
\<close>

lemma blocked_without_line_cover:
  "is_attack_blocked_by_cover sample_extern pillar_behind 10 10 8 10
   \<and> attack_through_cover sample_extern 8 10 10 10 100 (pillar_behind, draws [])
       = \<lparr>hits = True, damage_out = 100, cover_damage_out = 0, after = (pillar_behind, draws [])\<rparr>"
proof -
  have b: "is_attack_blocked_by_cover sample_extern pillar_behind 10 10 8 10"
    by (simp add: is_attack_blocked_by_cover_def get_directional_cover_def attack_dir_def
        directional_bit_def sample_extern_def pillar_behind_def floor_cave_def get_cover_at_def
        cover_consts grid_consts ge_WALL_EXTRA_def upt_rec)
  have c: "get_cover_vs_direction sample_extern pillar_behind 10 10 8 10 = COVER_NONE"
    by (simp add: get_cover_vs_direction_def sample_extern_def angband_distance_def
        pillar_behind_def floor_cave_def get_cover_at_def c_div_def cover_consts grid_consts
        upto.simps)
  show ?thesis using b by (simp add: uncovered_attack_hits [OF c])
qed

subsection \<open>Giving up the chase\<close>

lemma chase_without_sight:
  assumes "guard_state (guard m) = GUARD_STATE_CHASE" and "\<not> player_los P"
  shows "guard_state (guard (fst (snd (execute_patrol_behavior E P (m, r)))))
           = (if fy m = alert_y (guard m) \<and> fx m = alert_x (guard m)
                 \<and> chase_timer (guard m) - 1 \<le> 0
              then GUARD_STATE_RETURN else GUARD_STATE_CHASE)"
  using assms by (simp add: execute_patrol_behavior_def Let_def)

text \<open>
  C8 fails on the code. A guard in state CHASE at (5, 5), with no line of sight from the
  player, its timer at 0 and its last known target at (7, 7), is still in state CHASE
  after the turn, with the timer at -1; the same guard standing on (7, 7) goes to RETURN.
\<close>

theorem chase_timeout_off_target:
  "guard_state (guard (fst (snd (execute_patrol_behavior sample_extern unseen_turn
      (chaser 5 5, draws []))))) = GUARD_STATE_CHASE
   \<and> chase_timer (guard (fst (snd (execute_patrol_behavior sample_extern unseen_turn
      (chaser 5 5, draws []))))) = - 1
   \<and> guard_state (guard (fst (snd (execute_patrol_behavior sample_extern unseen_turn
      (chaser 7 7, draws []))))) = GUARD_STATE_RETURN"
  by (simp add: execute_patrol_behavior_def chaser_def unseen_turn_def)

theorem chase_timeout_off_target_witness:
  "guard_state (guard (fst (snd (execute_patrol_behavior sample_extern unseen_turn
      (chaser 5 5, draws []))))) \<noteq> GUARD_STATE_RETURN"
  using chase_timeout_off_target by simp

subsection \<open>Piercing the outer wall of a room\<close>

lemma fold_solidify_feat:
  "cave_feat (fold solidify gs c) y x
     = (if (y, x) \<in> set gs \<and> cave_feat c y x = FEAT_WALL_OUTER then FEAT_WALL_SOLID
        else cave_feat c y x)"
  by (induction gs arbitrary: c) (auto simp: solidify_def)

lemma set_block3: "(y, x) \<in> set (block3 r c) \<longleftrightarrow> \<bar>y - r\<bar> \<le> 1 \<and> \<bar>x - c\<bar> \<le> 1"
proof -
  have "\<bar>y - r\<bar> \<le> 1 \<longleftrightarrow> y = r - 1 \<or> y = r \<or> y = r + 1" by arith
  moreover have "\<bar>x - c\<bar> \<le> 1 \<longleftrightarrow> x = c - 1 \<or> x = c \<or> x = c + 1" by arith
  ultimately show ?thesis by (simp add: block3_def) blast
qed

lemma forbid_reentry_feat:
  "cave_feat (forbid_reentry r c cv) y x
     = (if \<bar>y - r\<bar> \<le> 1 \<and> \<bar>x - c\<bar> \<le> 1 \<and> cave_feat cv y x = FEAT_WALL_OUTER
        then FEAT_WALL_SOLID else cave_feat cv y x)"
  by (simp add: forbid_reentry_def fold_solidify_feat set_block3)

text \<open>
  C5, as amended. The straight tunneler obeys the wall-piercing rule: when the next grid is
  an outer wall, it leaves it alone if the grid one step further in the same direction is
  a permanent solid, permanent outer, outer or solid wall; otherwise it moves there, saves
  the grid in \<open>wall\<close> (while the array has room) and turns every outer wall of the 3x3
  block around it into a solid wall. The winding tunneler, standing on an outer wall, only
  saves the grid in \<open>wall\<close>: it makes no test one step further and converts nothing.
\<close>

theorem piercing_rule:
  "(cave_feat (grid (st v)) tmp_row tmp_col = FEAT_WALL_OUTER \<longrightarrow>
      tunnel_grid E start_row start_col tmp_row tmp_col v =
        (True,
         if cave_feat (grid (st v)) (tmp_row + row_dir v) (tmp_col + col_dir v)
              \<in> {FEAT_PERM_SOLID, FEAT_PERM_OUTER, FEAT_WALL_OUTER, FEAT_WALL_SOLID}
         then v
         else v\<lparr>row1 := tmp_row, col1 := tmp_col,
                st := (st v)\<lparr>dun := (dun (st v))\<lparr>wall :=
                                   save_grid WALL_MAX (tmp_row, tmp_col) (wall (dun (st v)))\<rparr>,
                              grid := forbid_reentry tmp_row tmp_col (grid (st v))\<rparr>\<rparr>))
   \<and> cave_feat (forbid_reentry tmp_row tmp_col c) y x
       = (if \<bar>y - tmp_row\<bar> \<le> 1 \<and> \<bar>x - tmp_col\<bar> \<le> 1 \<and> cave_feat c y x = FEAT_WALL_OUTER
          then FEAT_WALL_SOLID else cave_feat c y x)
   \<and> (cave_feat (grid (walk_st w)) (walk_y w) (walk_x w) = FEAT_WALL_OUTER \<longrightarrow>
        winding_grid w =
          w\<lparr>walk_st := (walk_st w)\<lparr>dun := (dun (walk_st w))\<lparr>wall :=
               save_grid WALL_MAX (walk_y w, walk_x w) (wall (dun (walk_st w)))\<rparr>\<rparr>\<rparr>)"
proof (intro conjI impI)
  assume "cave_feat (grid (st v)) tmp_row tmp_col = FEAT_WALL_OUTER"
  then show "tunnel_grid E start_row start_col tmp_row tmp_col v =
        (True,
         if cave_feat (grid (st v)) (tmp_row + row_dir v) (tmp_col + col_dir v)
              \<in> {FEAT_PERM_SOLID, FEAT_PERM_OUTER, FEAT_WALL_OUTER, FEAT_WALL_SOLID}
         then v
         else v\<lparr>row1 := tmp_row, col1 := tmp_col,
                st := (st v)\<lparr>dun := (dun (st v))\<lparr>wall :=
                                   save_grid WALL_MAX (tmp_row, tmp_col) (wall (dun (st v)))\<rparr>,
                              grid := forbid_reentry tmp_row tmp_col (grid (st v))\<rparr>\<rparr>)"
    by (simp add: tunnel_grid_def Let_def)
next
  show "cave_feat (forbid_reentry tmp_row tmp_col c) y x
       = (if \<bar>y - tmp_row\<bar> \<le> 1 \<and> \<bar>x - tmp_col\<bar> \<le> 1 \<and> cave_feat c y x = FEAT_WALL_OUTER
          then FEAT_WALL_SOLID else cave_feat c y x)"
    by (rule forbid_reentry_feat)
next
  assume "cave_feat (grid (walk_st w)) (walk_y w) (walk_x w) = FEAT_WALL_OUTER"
  then show "winding_grid w =
          w\<lparr>walk_st := (walk_st w)\<lparr>dun := (dun (walk_st w))\<lparr>wall :=
               save_grid WALL_MAX (walk_y w, walk_x w) (wall (dun (walk_st w)))\<rparr>\<rparr>\<rparr>"
    by (simp add: winding_grid_def Let_def)
qed

lemma wall_corner_feat:
  "cave_feat wall_corner y x =
     (if (y, x) \<in> {(4, 5), (5, 5), (6, 5), (5, 6)} then FEAT_WALL_OUTER else FEAT_FLOOR)"
  by (simp add: wall_corner_def fold_grids_feat floor_cave_def)

lemma wall_corner_room: "cave_room wall_corner y x = False"
  by (simp add: wall_corner_def floor_cave_def cave_set_feat_def)

theorem piercing_rule_witness:
  "tunnel_grid sample_extern 5 4 5 5 (digger 5 4) = (True, digger 5 4)
   \<and> wall (dun (st (snd (tunnel_grid sample_extern 4 4 4 5 (digger 4 4))))) = [(4, 5)]
   \<and> cave_feat (grid (st (snd (tunnel_grid sample_extern 4 4 4 5 (digger 4 4))))) 5 5
       = FEAT_WALL_SOLID
   \<and> cave_feat (forbid_reentry 4 5 wall_corner) 6 5 = FEAT_WALL_OUTER
   \<and> grid (walk_st (winding_grid walker)) = wall_corner
   \<and> wall (dun (walk_st (winding_grid walker))) = [(5, 5)]"
  using piercing_rule [where v = "digger 5 4" and tmp_row = 5 and tmp_col = 5
      and E = sample_extern and start_row = 5 and start_col = 4 and w = walker
      and c = wall_corner and y = 6 and x = 5]
    piercing_rule [where v = "digger 4 4" and tmp_row = 4 and tmp_col = 5
      and E = sample_extern and start_row = 4 and start_col = 4 and w = walker
      and c = wall_corner and y = 6 and x = 5]
  by (simp add: digger_def walker_def tunnel_start_def wall_corner_feat save_grid_def
      WALL_MAX_def forbid_reentry_feat)

lemmas walk_eval = winding_dir_def rand_int_def draws_def in_bounds_def DUNGEON_HGT_def
  DUNGEON_WID_def winding_grid_def wall_corner_feat wall_corner_room save_grid_def WALL_MAX_def
  DOOR_MAX_def ge_WALL_EXTRA_def Let_def

lemma winding_walk:
  "winding_loop sample_extern 5 7 0
     \<lparr>walk_y = 5, walk_x = 4, walk_door_flag = False,
      walk_st = \<lparr>grid = wall_corner, dun = \<lparr>cent = [], door = [], wall = [], tunn = []\<rparr>,
                 rnd = draws [0, 0, 0, 99, 99]\<rparr>\<rparr>
   = (3, \<lparr>walk_y = 5, walk_x = 7, walk_door_flag = True,
          walk_st = \<lparr>grid = wall_corner,
                     dun = \<lparr>cent = [], door = [(5, 7)], wall = [(5, 5), (5, 6)], tunn = []\<rparr>,
                     rnd = draws [99, 99]\<rparr>\<rparr>)"
  apply (subst winding_loop.simps, simp add: walk_eval)
  apply (subst winding_loop.simps, simp add: walk_eval)
  apply (subst winding_loop.simps, simp add: walk_eval)
  apply (subst winding_loop.simps, simp add: walk_eval)
  done

text \<open>
  C5 as stated fails for the winding tunneler. Walking from (5, 4) to (5, 7) it pierces
  the outer wall at (5, 5) although the grid one step further, (5, 6), is an outer wall
  too, then pierces that one as well, and the outer walls (4, 5) and (6, 5) next to the
  first piercing are still outer walls when it is done.
\<close>

theorem winding_counterexample:
  "map_option (\<lambda>s. (wall (dun s), cave_feat (grid s) 5 5, cave_feat (grid s) 5 6,
                     cave_feat (grid s) 4 5, cave_feat (grid s) 6 5))
     (build_tunnel_winding sample_extern 0 5 4 5 7 (tunnel_start [0, 0, 0, 99, 99]))
   = Some ([(5, 5), (5, 6)], FEAT_FLOOR, FEAT_FLOOR, FEAT_WALL_OUTER, FEAT_WALL_OUTER)"
  unfolding build_tunnel_winding_def tunnel_start_def
  by (simp add: winding_walk)
    (simp add: apply_piercings_def carve_tunnel_def apply_piercing_def rand_int_def draws_def
      DUN_TUN_PEN_def wall_corner_feat)

subsection \<open>The seed and the cover pass\<close>











subsection \<open>Up staircases\<close>

lemma rand_int_range:
  assumes "1 < m"
  shows "0 \<le> fst (rand_int E m r) \<and> fst (rand_int E m r) < m"
  using assms by (auto simp: rand_int_def split: prod.splits list.splits)

lemma distinct_all_grids: "distinct all_grids"
  by (simp add: all_grids_def distinct_product)

lemma count_feat_card:
  "count_feat f c = card {g \<in> set all_grids. cave_feat c (fst g) (snd g) = f}"
  by (simp add: count_feat_def distinct_length_filter [OF distinct_all_grids] Int_def conj_commute)

lemma count_feat_set:
  assumes "in_bounds y x" and "cave_feat c y x \<noteq> f"
  shows "count_feat f (cave_set_feat y x f c) = count_feat f c + 1"
proof -
  let ?A = "{g \<in> set all_grids. cave_feat c (fst g) (snd g) = f}"
  have mem: "(y, x) \<in> set all_grids" using assms(1) by (simp add: set_all_grids)
  have "{g \<in> set all_grids. cave_feat (cave_set_feat y x f c) (fst g) (snd g) = f}
          = insert (y, x) ?A"
    using mem by auto
  moreover have "(y, x) \<notin> ?A" using assms(2) by simp
  moreover have "finite ?A" by simp
  ultimately show ?thesis by (simp add: count_feat_card)
qed

lemma try_stairs_count:
  assumes "try_stairs E P f walls force_room j cr = (flag, c', r')"
    and "stair_feat E P f \<noteq> FEAT_FLOOR"
  shows "if flag then count_feat (stair_feat E P f) c' = count_feat (stair_feat E P f) (fst cr) + 1
         else c' = fst cr"
  using assms(1)
proof (induction "nat (3000 - j)" arbitrary: j cr)
  case 0
  then show ?case by (subst (asm) try_stairs.simps) auto
next
  case (Suc n)
  then have j: "j < 3000" by simp
  obtain y r1 where a: "rand_int E DUNGEON_HGT (snd cr) = (y, r1)"
    by (cases "rand_int E DUNGEON_HGT (snd cr)")
  obtain x r2 where b: "rand_int E DUNGEON_WID r1 = (x, r2)"
    by (cases "rand_int E DUNGEON_WID r1")
  have yb: "0 \<le> y \<and> y < DUNGEON_HGT"
    using rand_int_range [of DUNGEON_HGT E "snd cr"] a by (simp add: DUNGEON_HGT_def)
  have xb: "0 \<le> x \<and> x < DUNGEON_WID"
    using rand_int_range [of DUNGEON_WID E r1] b by (simp add: DUNGEON_WID_def)
  have ib: "in_bounds y x" using yb xb by (simp add: in_bounds_def)
  have n: "n = nat (3000 - (j + 1))" using Suc.hyps(2) by simp
  note IH = Suc.hyps(1) [OF n]
  show ?case
  proof (cases "\<not> cave_naked_bold (fst cr) y x \<or> (force_room \<and> \<not> cave_room (fst cr) y x)
                 \<or> next_to_walls (fst cr) y x < walls")
    case True
    then have "try_stairs E P f walls force_room j cr
                 = try_stairs E P f walls force_room (j + 1) (fst cr, r2)"
      using j by (subst try_stairs.simps) (auto simp: a b Let_def)
    with Suc.prems IH [of "(fst cr, r2)"] show ?thesis by simp
  next
    case False
    then have "try_stairs E P f walls force_room j cr
                 = (True, cave_set_feat y x (stair_feat E P f) (fst cr), r2)"
      using j by (subst try_stairs.simps) (auto simp: a b Let_def)
    with Suc.prems have flag: "flag" and c': "c' = cave_set_feat y x (stair_feat E P f) (fst cr)"
      by simp_all
    from False have "cave_feat (fst cr) y x = FEAT_FLOOR" by (simp add: cave_naked_bold_def)
    with assms(2) have "cave_feat (fst cr) y x \<noteq> stair_feat E P f" by simp
    from count_feat_set [OF ib this] flag c' show ?thesis by simp
  qed
qed

lemma place_stair_count:
  assumes "place_stair E P f force_room fuel walls cr = Some (walls', c', r')"
    and "stair_feat E P f \<noteq> FEAT_FLOOR"
  shows "count_feat (stair_feat E P f) c' = count_feat (stair_feat E P f) (fst cr) + 1"
  using assms(1)
proof (induction fuel arbitrary: walls cr)
  case 0
  then show ?case by simp
next
  case (Suc fuel)
  obtain flag c1 r1 where t: "try_stairs E P f walls force_room 0 cr = (flag, c1, r1)"
    by (cases "try_stairs E P f walls force_room 0 cr")
  from try_stairs_count [OF t assms(2)]
  have tc: "if flag then count_feat (stair_feat E P f) c1 = count_feat (stair_feat E P f) (fst cr) + 1
            else c1 = fst cr" .
  show ?case
  proof (cases flag)
    case True
    with Suc.prems t have "c' = c1" by (simp add: Let_def)
    with tc True show ?thesis by simp
  next
    case False
    with Suc.prems t
    have "place_stair E P f force_room fuel (if walls \<noteq> 0 then walls - 1 else walls) (c1, r1)
            = Some (walls', c', r')"
      by (simp add: Let_def)
    from Suc.IH [OF this] tc False show ?thesis by simp
  qed
qed

lemma stairs_loop_count:
  assumes "stairs_loop E P f force_room fuel i num walls cr = Some cr'"
    and "stair_feat E P f \<noteq> FEAT_FLOOR"
  shows "count_feat (stair_feat E P f) (fst cr')
           = count_feat (stair_feat E P f) (fst cr) + nat (num - i)"
  using assms(1)
proof (induction "nat (num - i)" arbitrary: i walls cr)
  case 0
  then show ?case by (subst (asm) stairs_loop.simps) auto
next
  case (Suc n)
  then have i: "i < num" by simp
  have n: "n = nat (num - (i + 1))" using Suc.hyps(2) by simp
  from Suc.prems i obtain walls1 c1 r1
    where p: "place_stair E P f force_room fuel walls cr = Some (walls1, c1, r1)"
      and l: "stairs_loop E P f force_room fuel (i + 1) num walls1 (c1, r1) = Some cr'"
    by (subst (asm) stairs_loop.simps) (auto split: option.splits)
  from Suc.hyps(1) [OF n l] place_stair_count [OF p assms(2)] Suc.hyps(2)
  show ?case by simp
qed

text \<open>
  C2 fails on the code. On a standard level (not the town, not the bottom of the dungeon,
  no special level), the call of \<open>cave_gen\<close> that places the up staircases, when it
  returns, has added between 40 and 60 grids of \<open>FEAT_LESS\<close> to the level, each on a
  grid that was naked floor: the level then holds at least 40 of them, not 1 to 3.
\<close>

theorem up_stairs_count:
  assumes "depth P \<noteq> 0" and "inside_special P = SPECIAL_NONE" and "depth P < MAX_DEPTH E - 1"
    and "cave_gen_up_stairs E P fuel level_bg (c, r) = Some (c', r')"
  shows "count_feat FEAT_LESS c + 40 \<le> count_feat FEAT_LESS c'
         \<and> count_feat FEAT_LESS c' \<le> count_feat FEAT_LESS c + 60"
proof -
  have sf: "stair_feat E P FEAT_LESS = FEAT_LESS"
    using assms(1-3) by (simp add: stair_feat_def)
  obtain v r1 where d: "rand_int E 21 r = (v, r1)" by (cases "rand_int E 21 r")
  have vb: "0 \<le> v \<and> v < 21" using rand_int_range [of 21 E r] d by simp
  from assms(4) have "stairs_loop E P FEAT_LESS (level_bg = FEAT_FOG \<or> level_bg = FEAT_CHAOS_FOG)
                        fuel 0 (40 + v) 3 (c, r1) = Some (c', r')"
    using assms(2) by (simp add: cave_gen_up_stairs_def rand_range_def d alloc_stairs_def)
  from stairs_loop_count [OF this] sf
  have "count_feat FEAT_LESS c' = count_feat FEAT_LESS c + nat (40 + v)" by simp
  with vb show ?thesis by auto
qed

lemma cave_layers_set [simp]:
  "cave_o_idx (cave_set_feat y x f c) = cave_o_idx c"
  "cave_m_idx (cave_set_feat y x f c) = cave_m_idx c"
  "cave_room (cave_set_feat y x f c) = cave_room c"
  by (simp_all add: cave_set_feat_def)

lemma stairs_loop_more:
  "i < num \<Longrightarrow>
   stairs_loop E P f force_room fuel i num walls cr =
     (case place_stair E P f force_room fuel walls cr of
        None \<Rightarrow> None
      | Some (walls', cr') \<Rightarrow> stairs_loop E P f force_room fuel (i + 1) num walls' cr')"
  by (subst stairs_loop.simps) simp

lemma stairs_loop_done:
  "\<not> i < num \<Longrightarrow> stairs_loop E P f force_room fuel i num walls cr = Some cr"
  by (subst stairs_loop.simps) simp

lemma try_stairs_first:
  "try_stairs E P f walls force_room 0 (c, r) =
     (let (y, r1) = rand_int E DUNGEON_HGT r;
          (x, r2) = rand_int E DUNGEON_WID r1
      in if \<not> cave_naked_bold c y x
         then try_stairs E P f walls force_room 1 (c, r2)
         else if force_room \<and> \<not> cave_room c y x
         then try_stairs E P f walls force_room 1 (c, r2)
         else if next_to_walls c y x < walls
         then try_stairs E P f walls force_room 1 (c, r2)
         else (True, cave_set_feat y x (stair_feat E P f) c, r2))"
  by (subst try_stairs.simps) (simp add: Let_def cong: if_cong)

lemma forty_stairs_placed:
  "cave_gen_up_stairs sample_extern deep_level 1 FEAT_WALL_EXTRA (pitted, draws forty_draws) \<noteq> None"
  by (simp add: cave_gen_up_stairs_def rand_range_def rand_int_def draws_def forty_draws_def
      alloc_stairs_def deep_level_def stairs_loop_more stairs_loop_done try_stairs_first
      DUNGEON_HGT_def DUNGEON_WID_def cave_naked_bold_def next_to_walls_def ge_WALL_EXTRA_def
      pitted_def floor_cave_def stair_feat_def sample_extern_def Let_def)

theorem up_stairs_count_witness:
  "cave_gen_up_stairs sample_extern deep_level 1 FEAT_WALL_EXTRA (pitted, draws forty_draws) \<noteq> None
   \<and> 40 \<le> count_feat FEAT_LESS
        (fst (the (cave_gen_up_stairs sample_extern deep_level 1 FEAT_WALL_EXTRA
                     (pitted, draws forty_draws))))"
proof -
  from forty_stairs_placed obtain c' r'
    where run: "cave_gen_up_stairs sample_extern deep_level 1 FEAT_WALL_EXTRA
                  (pitted, draws forty_draws) = Some (c', r')"
    by (cases "cave_gen_up_stairs sample_extern deep_level 1 FEAT_WALL_EXTRA
                  (pitted, draws forty_draws)") auto
  have "depth deep_level \<noteq> 0" "inside_special deep_level = SPECIAL_NONE"
    "depth deep_level < MAX_DEPTH sample_extern - 1"
    by (simp_all add: deep_level_def sample_extern_def)
  from up_stairs_count [OF this run] run show ?thesis by simp
qed

end
